theory Spec2Isabelle
  imports Complex_Main "HOL-Library.Word" "HOL-Library.Sublist" "HOL-Library.Stream"
begin

unbundle bit_operations_syntax

section \<open>JavaScript data used by the targeting engine\<close>

text \<open>
  A JavaScript string is a sequence of UTF-16 code units; \<open>str.charCodeAt(i)\<close> reads the
  \<open>i\<close>-th unit as an integer in \<open>0..65535\<close>.
\<close>

type_synonym jsstring = "16 word list"

definition ascii :: "string \<Rightarrow> jsstring" where
  "ascii s = map of_char s"

definition charCodeAt :: "16 word \<Rightarrow> int" where
  "charCodeAt c = uint c"

text \<open>
  A JavaScript number is an IEEE double. The engine only compares numbers (comparison of
  doubles is exact), so a finite double is modelled by the rational it denotes; \<open>-0\<close> and
  \<open>+0\<close> are one value (the engine cannot tell them apart: it never divides).
\<close>

datatype jsnum = Fin rat | NaN | PosInf | NegInf

fun num_lt :: "jsnum \<Rightarrow> jsnum \<Rightarrow> bool" where
  "num_lt NaN _ = False"
| "num_lt _ NaN = False"
| "num_lt (Fin a) (Fin b) = (a < b)"
| "num_lt (Fin a) PosInf = True"
| "num_lt (Fin a) NegInf = False"
| "num_lt PosInf _ = False"
| "num_lt NegInf (Fin b) = True"
| "num_lt NegInf PosInf = True"
| "num_lt NegInf NegInf = False"

fun num_eq :: "jsnum \<Rightarrow> jsnum \<Rightarrow> bool" where
  "num_eq NaN _ = False"
| "num_eq _ NaN = False"
| "num_eq a b = (a = b)"

definition num_gt :: "jsnum \<Rightarrow> jsnum \<Rightarrow> bool" where
  "num_gt a b = num_lt b a"

definition num_le :: "jsnum \<Rightarrow> jsnum \<Rightarrow> bool" where
  "num_le a b = (num_lt a b \<or> num_eq a b)"

definition num_ge :: "jsnum \<Rightarrow> jsnum \<Rightarrow> bool" where
  "num_ge a b = (num_lt b a \<or> num_eq a b)"

definition of_integer_value :: "int \<Rightarrow> jsnum" where
  "of_integer_value i = Fin (of_int i)"

subsection \<open>32-bit integer operators\<close>

text \<open>
  \<open>a << n\<close> and \<open>a & b\<close> convert their operands to signed 32-bit integers and give a
  signed 32-bit integer. The operands here are integer-valued doubles of magnitude below
  \<open>2^53\<close>, so they are modelled by \<open>int\<close>, with the conversion written out.
\<close>

definition toInt32 :: "int \<Rightarrow> 32 word" where
  "toInt32 x = word_of_int x"

definition js_shl :: "int \<Rightarrow> nat \<Rightarrow> int" where
  "js_shl a n = sint (push_bit (n mod 32) (toInt32 a))"

definition js_and :: "int \<Rightarrow> int \<Rightarrow> int" where
  "js_and a b = sint (toInt32 a AND toInt32 b)"

section \<open>The hash and the rollout test\<close>

text \<open>
  The loop of \<open>hashString\<close>, the same in both files:
  \<^verbatim>\<open>for (i = 0; i < str.length; i++) { char = str.charCodeAt(i);
         hash = (hash << 5) - hash + char; hash = hash & hash; }\<close>
\<close>

fun hash_loop :: "int \<Rightarrow> jsstring \<Rightarrow> int" where
  "hash_loop hash [] = hash"
| "hash_loop hash (c # cs) =
     (let char = charCodeAt c;
          hash1 = js_shl hash 5 - hash + char;
          hash2 = js_and hash1 hash1
      in hash_loop hash2 cs)"

text \<open>\<open>src/apps/dashboard/lib/targeting.ts\<close>: \<open>return Math.abs(hash)\<close>.\<close>

definition hashString_dash :: "jsstring \<Rightarrow> int" where
  "hashString_dash str = \<bar>hash_loop 0 str\<bar>"

text \<open>
  \<open>src/unnamed/part_005\<close>: \<open>return Math.abs(hash) % 100\<close>. The left operand of
  \<open>%\<close> is not negative, here and in \<open>isInRollout\<close>, so the remainder of JavaScript is
  \<open>mod\<close>.
\<close>

definition hashString_p5 :: "jsstring \<Rightarrow> int" where
  "hashString_p5 str = \<bar>hash_loop 0 str\<bar> mod 100"

text \<open>\<open>isInRollout\<close> of \<open>src/apps/dashboard/lib/targeting.ts\<close>.\<close>

definition isInRollout_dash :: "jsstring \<Rightarrow> jsstring \<Rightarrow> jsnum \<Rightarrow> bool" where
  "isInRollout_dash userId flagKey percentage =
     (if num_eq percentage (Fin 0) then False
      else if num_eq percentage (Fin 100) then True
      else
        (let combinedStr = flagKey @ ascii '':'' @ userId;
             hash = hashString_dash combinedStr;
             bucket = hash mod 100
         in num_lt (of_integer_value bucket) percentage))"

text \<open>\<open>isInRollout\<close> of \<open>src/unnamed/part_005\<close>.\<close>

definition isInRollout_p5 :: "jsstring \<Rightarrow> jsstring \<Rightarrow> jsnum \<Rightarrow> bool" where
  "isInRollout_p5 userId flagKey percentage =
     (if num_eq percentage (Fin 0) then False
      else if num_eq percentage (Fin 100) then True
      else
        (let combinedStr = flagKey @ ascii '':'' @ userId;
             bucket = hashString_p5 combinedStr
         in num_lt (of_integer_value bucket) percentage))"

section \<open>Values of type \<open>any\<close>\<close>

text \<open>
  Attribute values and condition values have the TypeScript type \<open>any\<close>. They come from
  request bodies and from stored flag configuration, so they are JSON data, \<open>undefined\<close>
  for what is missing, and the functions that a property lookup finds in
  \<open>Object.prototype\<close>. Arrays, objects and functions are compared by identity in
  JavaScript, so each carries the address of its allocation.
\<close>

datatype jsval =
    JUndefined
  | JNull
  | JBool bool
  | JNum jsnum
  | JStr jsstring
  | JArray nat "jsval list"
  | JObject nat
  | JFunction nat

text \<open>
  The two conversions between numbers and strings belong to the language runtime and depend
  on the binary representation of doubles (shortest round-trip digits, rounding of decimal
  literals); the source text that \<open>String\<close> gives for a built-in function is left to the
  implementation. They are parameters of the model: every statement below holds for all of
  them.
\<close>

record coercions =
  numberToString :: "jsnum \<Rightarrow> jsstring"
  stringToNumber :: "jsstring \<Rightarrow> jsnum"
  functionToString :: "nat \<Rightarrow> jsstring"

text \<open>\<open>a === b\<close>.\<close>

fun strict_eq :: "jsval \<Rightarrow> jsval \<Rightarrow> bool" where
  "strict_eq JUndefined JUndefined = True"
| "strict_eq JNull JNull = True"
| "strict_eq (JBool a) (JBool b) = (a = b)"
| "strict_eq (JNum a) (JNum b) = num_eq a b"
| "strict_eq (JStr a) (JStr b) = (a = b)"
| "strict_eq (JArray a _) (JArray b _) = (a = b)"
| "strict_eq (JObject a) (JObject b) = (a = b)"
| "strict_eq (JFunction a) (JFunction b) = (a = b)"
| "strict_eq _ _ = False"

text \<open>The comparison of \<open>Array.prototype.includes\<close>: as \<open>===\<close>, but \<open>NaN\<close> equals itself.\<close>

fun same_value_zero :: "jsval \<Rightarrow> jsval \<Rightarrow> bool" where
  "same_value_zero (JNum NaN) (JNum NaN) = True"
| "same_value_zero a b = strict_eq a b"

definition array_includes :: "jsval list \<Rightarrow> jsval \<Rightarrow> bool" where
  "array_includes xs v = list_ex (\<lambda>x. same_value_zero x v) xs"

text \<open>\<open>String(v)\<close>; an array is joined with commas, \<open>null\<close> and \<open>undefined\<close> elements empty.\<close>

fun js_String :: "coercions \<Rightarrow> jsval \<Rightarrow> jsstring"
  and js_join :: "coercions \<Rightarrow> jsval list \<Rightarrow> jsstring" where
  "js_String rt JUndefined = ascii ''undefined''"
| "js_String rt JNull = ascii ''null''"
| "js_String rt (JBool b) = (if b then ascii ''true'' else ascii ''false'')"
| "js_String rt (JNum n) = numberToString rt n"
| "js_String rt (JStr s) = s"
| "js_String rt (JArray a xs) = js_join rt xs"
| "js_String rt (JObject a) = ascii ''[object Object]''"
| "js_String rt (JFunction a) = functionToString rt a"
| "js_join rt [] = []"
| "js_join rt (x # xs) =
     (if x = JUndefined \<or> x = JNull then [] else js_String rt x)
     @ (if xs = [] then [] else ascii '','' @ js_join rt xs)"

text \<open>\<open>Number(v)\<close>; arrays, objects and functions are converted through their string.\<close>

fun js_Number :: "coercions \<Rightarrow> jsval \<Rightarrow> jsnum" where
  "js_Number rt JUndefined = NaN"
| "js_Number rt JNull = Fin 0"
| "js_Number rt (JBool b) = (if b then Fin 1 else Fin 0)"
| "js_Number rt (JNum n) = n"
| "js_Number rt (JStr s) = stringToNumber rt s"
| "js_Number rt (JArray a xs) = stringToNumber rt (js_String rt (JArray a xs))"
| "js_Number rt (JObject a) = stringToNumber rt (js_String rt (JObject a))"
| "js_Number rt (JFunction a) = stringToNumber rt (js_String rt (JFunction a))"

text \<open>\<open>hay.includes(needle)\<close> on strings.\<close>

definition string_includes :: "jsstring \<Rightarrow> jsstring \<Rightarrow> bool" where
  "string_includes hay needle = sublist needle hay"

text \<open>\<open>s.split(',')\<close>: the pieces between the separators, one piece for the empty string.\<close>

fun js_split :: "jsstring \<Rightarrow> 16 word \<Rightarrow> jsstring list" where
  "js_split [] sep = [[]]"
| "js_split (c # cs) sep =
     (if c = sep then [] # js_split cs sep
      else (case js_split cs sep of
              [] \<Rightarrow> [[c]]
            | piece # pieces \<Rightarrow> (c # piece) # pieces))"

text \<open>\<open>s.trim()\<close> removes white space and line terminators at both ends.\<close>

definition is_js_space :: "16 word \<Rightarrow> bool" where
  "is_js_space c =
     (c \<in> {0x09, 0x0A, 0x0B, 0x0C, 0x0D, 0x20, 0xA0, 0x1680, 0x2028, 0x2029, 0x202F,
            0x205F, 0x3000, 0xFEFF}
      \<or> (0x2000 \<le> c \<and> c \<le> 0x200A))"

definition js_trim :: "jsstring \<Rightarrow> jsstring" where
  "js_trim s = rev (dropWhile is_js_space (rev (dropWhile is_js_space s)))"

definition is_array :: "jsval \<Rightarrow> bool" where
  "is_array v = (case v of JArray _ _ \<Rightarrow> True | _ \<Rightarrow> False)"

definition elements :: "jsval \<Rightarrow> jsval list" where
  "elements v = (case v of JArray _ xs \<Rightarrow> xs | _ \<Rightarrow> [])"

section \<open>The data model of the engine\<close>

text \<open>
  The operator is one of eight string literals; \<open>OpOther\<close> stands for any other string,
  which the \<open>switch\<close> sends to its \<open>default\<close> branch.
\<close>

datatype Operator = OpEq | OpNe | OpContains | OpIn | OpGt | OpLt | OpGte | OpLte | OpOther

record TargetingCondition =
  attribute :: jsstring
  operator :: Operator
  cond_value :: jsval

record TargetingRule =
  rule_id :: jsstring
  description :: jsstring
  conditions :: "TargetingCondition list"
  rolloutPercentage :: jsnum
  rule_value :: jsval
  rule_enabled :: bool

record DefaultRule =
  default_rolloutPercentage :: jsnum
  default_value :: jsval

record Targeting =
  enabled :: bool
  rules :: "TargetingRule list"
  defaultRule :: DefaultRule

text \<open>Both fields of the user context are optional.\<close>

record UserContext =
  user_id :: "jsstring option"
  attributes :: "(jsstring \<rightharpoonup> jsval) option"

record RuleResult =
  matches :: bool
  matched_value :: jsval

record EvaluationResult =
  eval_enabled :: bool
  eval_value :: jsval

text \<open>
  The attribute map of a request is a plain object, so a lookup that finds no own property
  goes on in \<open>Object.prototype\<close>. These are its members: eleven functions, and the
  accessor \<open>__proto__\<close>, which returns \<open>Object.prototype\<close> itself. The addresses 0 to 11
  are theirs.
\<close>

definition Object_prototype :: "(jsstring \<times> jsval) list" where
  "Object_prototype =
     [(ascii ''constructor'', JFunction 0),
      (ascii ''__defineGetter__'', JFunction 1),
      (ascii ''__defineSetter__'', JFunction 2),
      (ascii ''hasOwnProperty'', JFunction 3),
      (ascii ''__lookupGetter__'', JFunction 4),
      (ascii ''__lookupSetter__'', JFunction 5),
      (ascii ''isPrototypeOf'', JFunction 6),
      (ascii ''propertyIsEnumerable'', JFunction 7),
      (ascii ''toString'', JFunction 8),
      (ascii ''valueOf'', JFunction 9),
      (ascii ''toLocaleString'', JFunction 10),
      (ascii ''__proto__'', JObject 11)]"

text \<open>
  \<open>user.attributes?.[name]\<close>: \<open>undefined\<close> without a map; with a map, the own property
  of that name, else the member of \<open>Object.prototype\<close> of that name, else \<open>undefined\<close>.
\<close>

definition attribute_of :: "UserContext \<Rightarrow> jsstring \<Rightarrow> jsval" where
  "attribute_of user name =
     (case attributes user of
        None \<Rightarrow> JUndefined
      | Some own \<Rightarrow>
          (case own name of
             Some v \<Rightarrow> v
           | None \<Rightarrow>
               (case map_of Object_prototype name of
                  Some inherited \<Rightarrow> inherited
                | None \<Rightarrow> JUndefined)))"

section \<open>The random source\<close>

text \<open>
  \<open>Math.random()\<close> returns a number \<open>r\<close> with \<open>0 \<le> r < 1\<close>. Each call takes the next
  draw of a stream, which the functions below pass along. The product \<open>r * 100\<close> is taken
  exactly; the double product is rounded to the nearest double, which stays below \<open>100\<close>.
  For some draws the rounded product reaches the next integer and the bucket of the code is
  one more than the bucket here (the double nearest to \<open>0.69\<close>: 69 against 68). The
  statements below use the range \<open>0..99\<close> of the bucket, which both have, and the draws
  \<open>0\<close> and \<open>1/2\<close>, where the product is exact.
\<close>

typedef draw = "{r :: rat. 0 \<le> r \<and> r < 1}"
  by (rule exI [of _ 0]) simp

setup_lifting type_definition_draw

lift_definition draw_value :: "draw \<Rightarrow> rat" is "\<lambda>r. r" .

lift_definition draw_zero :: draw is 0
  by simp

lift_definition draw_half :: draw is "1 / 2"
  by simp

definition Math_random :: "draw stream \<Rightarrow> draw \<times> draw stream" where
  "Math_random rnd = (shd rnd, stl rnd)"

text \<open>\<open>Math.floor(Math.random() * 100)\<close>.\<close>

definition random_bucket :: "draw \<Rightarrow> int" where
  "random_bucket r = \<lfloor>draw_value r * 100\<rfloor>"

text \<open>The template \<open>anon-${Math.random()}\<close>.\<close>

definition anonymous_id :: "coercions \<Rightarrow> draw \<Rightarrow> jsstring" where
  "anonymous_id rt r = ascii ''anon-'' @ numberToString rt (Fin (draw_value r))"

section \<open>Conditions\<close>

text \<open>\<open>evaluateCondition(condition, user)\<close> of \<open>src/apps/dashboard/lib/targeting.ts\<close>.\<close>

definition evaluateCondition_dash :: "coercions \<Rightarrow> TargetingCondition \<Rightarrow> UserContext \<Rightarrow> bool" where
  "evaluateCondition_dash rt condition user =
     (let userValue = attribute_of user (attribute condition) in
      if userValue = JUndefined then False
      else
        (case operator condition of
           OpEq \<Rightarrow> strict_eq userValue (cond_value condition)
         | OpNe \<Rightarrow> \<not> strict_eq userValue (cond_value condition)
         | OpContains \<Rightarrow>
             string_includes (js_String rt userValue) (js_String rt (cond_value condition))
         | OpIn \<Rightarrow>
             is_array (cond_value condition)
             \<and> array_includes (elements (cond_value condition)) userValue
         | OpGt \<Rightarrow> num_gt (js_Number rt userValue) (js_Number rt (cond_value condition))
         | OpLt \<Rightarrow> num_lt (js_Number rt userValue) (js_Number rt (cond_value condition))
         | OpGte \<Rightarrow> num_ge (js_Number rt userValue) (js_Number rt (cond_value condition))
         | OpLte \<Rightarrow> num_le (js_Number rt userValue) (js_Number rt (cond_value condition))
         | OpOther \<Rightarrow> False))"

text \<open>\<open>evaluateCondition(userValue, operator, conditionValue)\<close> of \<open>src/unnamed/part_005\<close>.\<close>

definition evaluateCondition_p5 :: "coercions \<Rightarrow> jsval \<Rightarrow> Operator \<Rightarrow> jsval \<Rightarrow> bool" where
  "evaluateCondition_p5 rt userValue op conditionValue =
     (if userValue = JUndefined then False
      else
        (case op of
           OpEq \<Rightarrow> strict_eq userValue conditionValue
         | OpNe \<Rightarrow> \<not> strict_eq userValue conditionValue
         | OpContains \<Rightarrow> string_includes (js_String rt userValue) (js_String rt conditionValue)
         | OpIn \<Rightarrow>
             (let values =
                (if is_array conditionValue then elements conditionValue
                 else map (\<lambda>v. JStr (js_trim v)) (js_split (js_String rt conditionValue) 0x2C))
              in array_includes values userValue)
         | OpGt \<Rightarrow> num_gt (js_Number rt userValue) (js_Number rt conditionValue)
         | OpLt \<Rightarrow> num_lt (js_Number rt userValue) (js_Number rt conditionValue)
         | OpGte \<Rightarrow> num_ge (js_Number rt userValue) (js_Number rt conditionValue)
         | OpLte \<Rightarrow> num_le (js_Number rt userValue) (js_Number rt conditionValue)
         | OpOther \<Rightarrow> False))"

definition evaluateConditionWithUser :: "coercions \<Rightarrow> TargetingCondition \<Rightarrow> UserContext \<Rightarrow> bool" where
  "evaluateConditionWithUser rt condition user =
     (let userValue = attribute_of user (attribute condition)
      in evaluateCondition_p5 rt userValue (operator condition) (cond_value condition))"

section \<open>Rules and targeting\<close>

text \<open>
  \<open>!user.id\<close> holds when the id is missing and when it is the empty string; both take the
  branch that draws a random bucket. A result is paired with the remaining draws.
\<close>

text \<open>\<open>evaluateRule\<close> of \<open>src/apps/dashboard/lib/targeting.ts\<close>.\<close>

definition evaluateRule_dash ::
  "coercions \<Rightarrow> TargetingRule \<Rightarrow> UserContext \<Rightarrow> jsstring \<Rightarrow> draw stream
     \<Rightarrow> RuleResult \<times> draw stream" where
  "evaluateRule_dash rt rule user flagKey rnd =
     (if \<not> rule_enabled rule then (\<lparr>matches = False, matched_value = JUndefined\<rparr>, rnd)
      else
        (let allConditionsMatch =
               list_all (\<lambda>condition. evaluateCondition_dash rt condition user) (conditions rule)
         in
         if \<not> allConditionsMatch then (\<lparr>matches = False, matched_value = JUndefined\<rparr>, rnd)
         else
           (let randomRollout =
                  (let (r, rnd') = Math_random rnd;
                       randomBucket = random_bucket r
                   in (\<lparr>matches = num_lt (of_integer_value randomBucket) (rolloutPercentage rule),
                         matched_value = rule_value rule\<rparr>, rnd'))
            in
            case user_id user of
              None \<Rightarrow> randomRollout
            | Some uid \<Rightarrow>
                if uid = [] then randomRollout
                else
                  (let inRollout = isInRollout_dash uid flagKey (rolloutPercentage rule)
                   in (\<lparr>matches = inRollout, matched_value = rule_value rule\<rparr>, rnd)))))"

text \<open>\<open>evaluateRule\<close> of \<open>src/unnamed/part_005\<close>.\<close>

definition evaluateRule_p5 ::
  "coercions \<Rightarrow> TargetingRule \<Rightarrow> UserContext \<Rightarrow> jsstring \<Rightarrow> draw stream
     \<Rightarrow> RuleResult \<times> draw stream" where
  "evaluateRule_p5 rt rule user flagKey rnd =
     (if \<not> rule_enabled rule then (\<lparr>matches = False, matched_value = JUndefined\<rparr>, rnd)
      else
        (let allConditionsMatch =
               list_all (\<lambda>condition. evaluateConditionWithUser rt condition user) (conditions rule)
         in
         if \<not> allConditionsMatch then (\<lparr>matches = False, matched_value = JUndefined\<rparr>, rnd)
         else
           (let randomRollout =
                  (let (r, rnd') = Math_random rnd;
                       randomBucket = random_bucket r
                   in (\<lparr>matches = num_lt (of_integer_value randomBucket) (rolloutPercentage rule),
                         matched_value = rule_value rule\<rparr>, rnd'))
            in
            case user_id user of
              None \<Rightarrow> randomRollout
            | Some uid \<Rightarrow>
                if uid = [] then randomRollout
                else
                  (let inRollout = isInRollout_p5 uid flagKey (rolloutPercentage rule)
                   in (\<lparr>matches = inRollout, matched_value = rule_value rule\<rparr>, rnd)))))"

text \<open>
  The loop \<open>for (const rule of targeting.rules)\<close> of \<open>evaluateTargeting\<close>: the value of the
  first rule that matches, or \<open>None\<close> when the loop ends without returning.
\<close>

fun rules_loop_dash ::
  "coercions \<Rightarrow> TargetingRule list \<Rightarrow> UserContext \<Rightarrow> jsstring \<Rightarrow> draw stream
     \<Rightarrow> jsval option \<times> draw stream" where
  "rules_loop_dash rt [] user flagKey rnd = (None, rnd)"
| "rules_loop_dash rt (rule # rest) user flagKey rnd =
     (let (result, rnd') = evaluateRule_dash rt rule user flagKey rnd
      in if matches result then (Some (matched_value result), rnd')
         else rules_loop_dash rt rest user flagKey rnd')"

fun rules_loop_p5 ::
  "coercions \<Rightarrow> TargetingRule list \<Rightarrow> UserContext \<Rightarrow> jsstring \<Rightarrow> draw stream
     \<Rightarrow> jsval option \<times> draw stream" where
  "rules_loop_p5 rt [] user flagKey rnd = (None, rnd)"
| "rules_loop_p5 rt (rule # rest) user flagKey rnd =
     (let (result, rnd') = evaluateRule_p5 rt rule user flagKey rnd
      in if matches result then (Some (matched_value result), rnd')
         else rules_loop_p5 rt rest user flagKey rnd')"

text \<open>\<open>user.id || `anon-${Math.random()}`\<close>: a draw is taken only when the id is falsy.\<close>

definition id_or_anonymous ::
  "coercions \<Rightarrow> UserContext \<Rightarrow> draw stream \<Rightarrow> jsstring \<times> draw stream" where
  "id_or_anonymous rt user rnd =
     (let anonymous = (let (r, rnd') = Math_random rnd in (anonymous_id rt r, rnd'))
      in case user_id user of
           None \<Rightarrow> anonymous
         | Some uid \<Rightarrow> if uid = [] then anonymous else (uid, rnd))"

text \<open>\<open>evaluateTargeting\<close> of \<open>src/apps/dashboard/lib/targeting.ts\<close>.\<close>

definition evaluateTargeting_dash ::
  "coercions \<Rightarrow> jsstring \<Rightarrow> Targeting option \<Rightarrow> UserContext \<Rightarrow> jsval \<Rightarrow> draw stream
     \<Rightarrow> EvaluationResult \<times> draw stream" where
  "evaluateTargeting_dash rt flagKey targeting user defaultValue rnd =
     (case targeting of
        None \<Rightarrow> (\<lparr>eval_enabled = True, eval_value = defaultValue\<rparr>, rnd)
      | Some t \<Rightarrow>
          if \<not> enabled t then (\<lparr>eval_enabled = True, eval_value = defaultValue\<rparr>, rnd)
          else
            (case rules_loop_dash rt (rules t) user flagKey rnd of
               (Some v, rnd') \<Rightarrow> (\<lparr>eval_enabled = True, eval_value = v\<rparr>, rnd')
             | (None, rnd') \<Rightarrow>
                 (let (userId, rnd'') = id_or_anonymous rt user rnd';
                      inDefaultRollout =
                        isInRollout_dash userId flagKey (default_rolloutPercentage (defaultRule t))
                  in (\<lparr>eval_enabled = inDefaultRollout,
                        eval_value = default_value (defaultRule t)\<rparr>, rnd''))))"

text \<open>\<open>evaluateTargeting\<close> of \<open>src/unnamed/part_005\<close>.\<close>

definition evaluateTargeting_p5 ::
  "coercions \<Rightarrow> jsstring \<Rightarrow> Targeting option \<Rightarrow> UserContext \<Rightarrow> jsval \<Rightarrow> draw stream
     \<Rightarrow> EvaluationResult \<times> draw stream" where
  "evaluateTargeting_p5 rt flagKey targeting user defaultValue rnd =
     (case targeting of
        None \<Rightarrow> (\<lparr>eval_enabled = True, eval_value = defaultValue\<rparr>, rnd)
      | Some t \<Rightarrow>
          if \<not> enabled t then (\<lparr>eval_enabled = True, eval_value = defaultValue\<rparr>, rnd)
          else
            (case rules_loop_p5 rt (rules t) user flagKey rnd of
               (Some v, rnd') \<Rightarrow> (\<lparr>eval_enabled = True, eval_value = v\<rparr>, rnd')
             | (None, rnd') \<Rightarrow>
                 (let (userId, rnd'') = id_or_anonymous rt user rnd';
                      inDefaultRollout =
                        isInRollout_p5 userId flagKey (default_rolloutPercentage (defaultRule t))
                  in (\<lparr>eval_enabled = inDefaultRollout,
                        eval_value = default_value (defaultRule t)\<rparr>, rnd''))))"

section \<open>The claim "no rule matches", in the words of the specification\<close>

text \<open>
  No rule matches when every rule, in order, is disabled, or has a failing condition, or
  misses its rollout bucket. The bucket of a user with a non-empty id is decided by the
  rollout test; otherwise it is the next random draw. The result is the stream of draws
  left over, or \<open>None\<close> when some rule matches. The two files differ in their condition
  evaluator and rollout test, which are arguments here.
\<close>

fun no_rule_matches ::
  "(TargetingRule \<Rightarrow> bool) \<Rightarrow> (jsstring \<Rightarrow> jsnum \<Rightarrow> bool) \<Rightarrow> jsstring option
     \<Rightarrow> TargetingRule list \<Rightarrow> draw stream \<Rightarrow> draw stream option" where
  "no_rule_matches conds_ok in_rollout uid [] rnd = Some rnd"
| "no_rule_matches conds_ok in_rollout uid (rule # rest) rnd =
     (if \<not> rule_enabled rule then no_rule_matches conds_ok in_rollout uid rest rnd
      else if \<not> conds_ok rule then no_rule_matches conds_ok in_rollout uid rest rnd
      else
        (case (case uid of None \<Rightarrow> None | Some u \<Rightarrow> if u = [] then None else Some u) of
           None \<Rightarrow>
             if num_lt (of_integer_value (random_bucket (shd rnd))) (rolloutPercentage rule)
             then None
             else no_rule_matches conds_ok in_rollout uid rest (stl rnd)
         | Some u \<Rightarrow>
             if in_rollout u (rolloutPercentage rule) then None
             else no_rule_matches conds_ok in_rollout uid rest rnd))"

section \<open>Data for the examples\<close>

text \<open>
  The closed examples need some conversions between numbers and strings. These agree with
  JavaScript on the two finite numbers the examples convert, \<open>0\<close> and \<open>1/2\<close>, and on
  the three numbers that are not finite; no example converts a string to a number or a
  function to a string.
\<close>

definition example_coercions :: coercions where
  "example_coercions =
     \<lparr>numberToString =
        (\<lambda>n. if n = Fin 0 then ascii ''0''
             else if n = Fin (1 / 2) then ascii ''0.5''
             else if n = NaN then ascii ''NaN''
             else if n = PosInf then ascii ''Infinity''
             else if n = NegInf then ascii ''-Infinity''
             else []),
      stringToNumber = (\<lambda>s. NaN),
      functionToString = (\<lambda>a. [])\<rparr>"

definition premium_rule :: "jsnum \<Rightarrow> jsval \<Rightarrow> TargetingRule" where
  "premium_rule percentage v =
     \<lparr>rule_id = ascii ''rule-1'', description = ascii ''Premium users'',
      conditions = [\<lparr>attribute = ascii ''plan'', operator = OpEq,
                     cond_value = JStr (ascii ''premium'')\<rparr>],
      rolloutPercentage = percentage, rule_value = v, rule_enabled = True\<rparr>"

definition gate_rule :: "jsnum \<Rightarrow> jsval \<Rightarrow> TargetingRule" where
  "gate_rule percentage v =
     \<lparr>rule_id = ascii ''rule-2'', description = ascii ''Everyone'', conditions = [],
      rolloutPercentage = percentage, rule_value = v, rule_enabled = True\<rparr>"

definition country_rule :: "jsnum \<Rightarrow> jsval \<Rightarrow> TargetingRule" where
  "country_rule percentage v =
     \<lparr>rule_id = ascii ''rule-2'', description = ascii ''Some countries'',
      conditions = [\<lparr>attribute = ascii ''country'', operator = OpIn,
                     cond_value = JArray 100 [JStr (ascii ''TR''), JStr (ascii ''US'')]\<rparr>],
      rolloutPercentage = percentage, rule_value = v, rule_enabled = True\<rparr>"

definition premium_user :: UserContext where
  "premium_user =
     \<lparr>user_id = Some (ascii ''user-123''),
      attributes = Some [ascii ''plan'' \<mapsto> JStr (ascii ''premium''),
                         ascii ''country'' \<mapsto> JStr (ascii ''TR'')]\<rparr>"

definition free_user :: UserContext where
  "free_user =
     \<lparr>user_id = Some (ascii ''user-123''),
      attributes = Some [ascii ''plan'' \<mapsto> JStr (ascii ''free'')]\<rparr>"

definition disabled_targeting :: Targeting where
  "disabled_targeting =
     \<lparr>enabled = False, rules = [gate_rule (Fin 100) (JStr (ascii ''from-rule''))],
      defaultRule = \<lparr>default_rolloutPercentage = Fin 100,
                      default_value = JStr (ascii ''from-default-rule'')\<rparr>\<rparr>"

definition cascade_targeting :: Targeting where
  "cascade_targeting =
     \<lparr>enabled = True,
      rules = [premium_rule (Fin 0) (JStr (ascii ''first'')),
               country_rule (Fin 100) (JStr (ascii ''second''))],
      defaultRule = \<lparr>default_rolloutPercentage = Fin 0, default_value = JBool False\<rparr>\<rparr>"

definition premium_targeting :: Targeting where
  "premium_targeting =
     \<lparr>enabled = True, rules = [premium_rule (Fin 100) (JBool True)],
      defaultRule = \<lparr>default_rolloutPercentage = Fin 0, default_value = JBool False\<rparr>\<rparr>"

definition half_targeting :: Targeting where
  "half_targeting =
     \<lparr>enabled = True, rules = [gate_rule (Fin 50) (JBool True)],
      defaultRule = \<lparr>default_rolloutPercentage = Fin 0, default_value = JBool False\<rparr>\<rparr>"

definition default_only_targeting :: Targeting where
  "default_only_targeting =
     \<lparr>enabled = True, rules = [],
      defaultRule = \<lparr>default_rolloutPercentage = Fin 60, default_value = JBool True\<rparr>\<rparr>"

definition attribute_free_user :: "jsstring option \<Rightarrow> UserContext" where
  "attribute_free_user uid = \<lparr>user_id = uid, attributes = None\<rparr>"

definition country_in_condition :: TargetingCondition where
  "country_in_condition =
     \<lparr>attribute = ascii ''country'', operator = OpIn, cond_value = JStr (ascii ''TR,US,UK'')\<rparr>"

definition constructor_ne_condition :: TargetingCondition where
  "constructor_ne_condition =
     \<lparr>attribute = ascii ''constructor'', operator = OpNe, cond_value = JStr (ascii ''premium'')\<rparr>"

definition plan_ne_condition :: TargetingCondition where
  "plan_ne_condition =
     \<lparr>attribute = ascii ''plan'', operator = OpNe, cond_value = JStr (ascii ''premium'')\<rparr>"

definition country_only_user :: "jsstring \<Rightarrow> UserContext" where
  "country_only_user country =
     \<lparr>user_id = Some (ascii ''u1''), attributes = Some [ascii ''country'' \<mapsto> JStr country]\<rparr>"

section \<open>Properties of the hash\<close>

lemma hash_step_int32:
  "js_and (js_shl h 5 - h + c) (js_shl h 5 - h + c) = sint (word_of_int (31 * h + c) :: 32 word)"
proof -
  have "(word_of_int (js_shl h 5 - h + c) :: 32 word) = word_of_int (31 * h + c)"
    by (simp add: js_shl_def toInt32_def push_bit_eq_mult)
  then show ?thesis
    by (simp add: js_and_def toInt32_def)
qed

lemma hash_loop_step:
  "hash_loop h (c # cs) = hash_loop (sint (word_of_int (31 * h + uint c) :: 32 word)) cs"
  by (simp add: Let_def hash_step_int32 charCodeAt_def)

lemma hash_loop_range:
  "- (2 ^ 31) \<le> h \<Longrightarrow> h < 2 ^ 31 \<Longrightarrow> - (2 ^ 31) \<le> hash_loop h s \<and> hash_loop h s < 2 ^ 31"
proof (induction s arbitrary: h)
  case Nil
  then show ?case by simp
next
  case (Cons c cs)
  let ?w = "word_of_int (31 * h + uint c) :: 32 word"
  have "- (2 ^ 31) \<le> sint ?w" using sint_ge [of ?w] by simp
  moreover have "sint ?w < 2 ^ 31" using sint_lt [of ?w] by simp
  ultimately show ?case
    using Cons.IH [of "sint ?w"] by (simp only: hash_loop_step)
qed

lemma hashString_p5_range: "0 \<le> hashString_p5 s \<and> hashString_p5 s < 100"
  by (simp add: hashString_p5_def)

lemma hashString_dash_range: "0 \<le> hashString_dash s \<and> hashString_dash s \<le> 2 ^ 31"
  using hash_loop_range [of 0 s] by (simp add: hashString_dash_def abs_le_iff)

lemma bucket_dash_eq_p5: "hashString_dash s mod 100 = hashString_p5 s"
  by (simp add: hashString_dash_def hashString_p5_def)

lemma hashString_dash_aa: "hashString_dash (ascii ''aa'') = 3104"
  by (simp add: hashString_dash_def ascii_def hash_loop_step del: hash_loop.simps(2))

lemma hashString_p5_golden: "hashString_p5 (ascii ''test-user-123'') = 73"
  by (simp add: hashString_p5_def ascii_def hash_loop_step del: hash_loop.simps(2))

lemma hashString_dash_golden: "hashString_dash (ascii ''test-user-123'') = 1333033973"
  by (simp add: hashString_dash_def ascii_def hash_loop_step del: hash_loop.simps(2))

section \<open>Properties of the rollout test\<close>

lemma isInRollout_same: "isInRollout_dash u f p = isInRollout_p5 u f p"
  by (simp add: isInRollout_dash_def isInRollout_p5_def bucket_dash_eq_p5 Let_def)

lemma num_lt_bucket_low:
  "0 \<le> b \<Longrightarrow> num_le p (Fin 0) \<Longrightarrow> \<not> num_lt (of_integer_value b) p"
  by (cases p) (auto simp: num_le_def of_integer_value_def)

lemma num_lt_bucket_high:
  "b < 100 \<Longrightarrow> num_ge p (Fin 100) \<Longrightarrow> num_lt (of_integer_value b) p"
proof (cases p)
  case (Fin x)
  assume "b < 100" and "num_ge p (Fin 100)"
  then have "of_int b < (100 :: rat)" and "100 \<le> x"
    using Fin by (auto simp: num_ge_def)
  then show ?thesis
    using Fin by (simp add: of_integer_value_def)
qed (simp_all add: num_ge_def of_integer_value_def)

lemma num_le_0_not_100: "num_le p (Fin 0) \<Longrightarrow> \<not> num_eq p (Fin 100)"
  by (cases p) (auto simp: num_le_def)

lemma num_ge_100_not_0: "num_ge p (Fin 100) \<Longrightarrow> \<not> num_eq p (Fin 0)"
  by (cases p) (auto simp: num_ge_def)

lemma isInRollout_p5_low: "num_le p (Fin 0) \<Longrightarrow> \<not> isInRollout_p5 u f p"
  using hashString_p5_range [of "f @ ascii '':'' @ u"]
  by (simp add: isInRollout_p5_def Let_def num_lt_bucket_low num_le_0_not_100)

lemma isInRollout_p5_high: "num_ge p (Fin 100) \<Longrightarrow> isInRollout_p5 u f p"
  using hashString_p5_range [of "f @ ascii '':'' @ u"]
  by (simp add: isInRollout_p5_def Let_def num_lt_bucket_high num_ge_100_not_0)

lemma isInRollout_p5_0 [simp]: "\<not> isInRollout_p5 u f (Fin 0)"
  by (simp add: isInRollout_p5_def)

lemma isInRollout_p5_100 [simp]: "isInRollout_p5 u f (Fin 100)"
  by (simp add: isInRollout_p5_def)

lemma isInRollout_dash_0 [simp]: "\<not> isInRollout_dash u f (Fin 0)"
  by (simp add: isInRollout_dash_def)

lemma isInRollout_dash_100 [simp]: "isInRollout_dash u f (Fin 100)"
  by (simp add: isInRollout_dash_def)

text \<open>
  Claim C4. For every user id (the empty string too) and every flag key, \<open>isInRollout\<close> is
  false for every percentage \<open>p \<le> 0\<close> and true for every percentage \<open>p \<ge> 100\<close>, in both
  files; the comparisons are those of JavaScript numbers, so \<open>-Infinity\<close> and \<open>Infinity\<close>
  are covered and \<open>NaN\<close> satisfies neither.
\<close>

theorem isInRollout_outside_range:
  "(num_le p (Fin 0) \<longrightarrow> \<not> isInRollout_dash u f p \<and> \<not> isInRollout_p5 u f p) \<and>
   (num_ge p (Fin 100) \<longrightarrow> isInRollout_dash u f p \<and> isInRollout_p5 u f p)"
  by (simp add: isInRollout_same isInRollout_p5_low isInRollout_p5_high)

theorem isInRollout_outside_range_witness:
  "num_le (Fin (- 5)) (Fin 0) \<and> \<not> isInRollout_dash [] (ascii ''flag'') (Fin (- 5))
     \<and> \<not> isInRollout_p5 [] (ascii ''flag'') (Fin (- 5))
   \<and> num_ge (Fin (201 / 2)) (Fin 100) \<and> isInRollout_dash [] (ascii ''flag'') (Fin (201 / 2))
     \<and> isInRollout_p5 [] (ascii ''flag'') (Fin (201 / 2))"
proof -
  have lo: "num_le (Fin (- 5)) (Fin 0)" by (simp add: num_le_def)
  have hi: "num_ge (Fin (201 / 2)) (Fin 100)" by (simp add: num_ge_def)
  show ?thesis
    using lo hi
      isInRollout_outside_range [of "Fin (- 5)" "[]" "ascii ''flag''"]
      isInRollout_outside_range [of "Fin (201 / 2)" "[]" "ascii ''flag''"]
    by simp
qed

text \<open>
  Claim C6, as amended. \<open>hashString\<close> of \<open>src/unnamed/part_005\<close> returns an integer in
  \<open>[0, 100)\<close> for every string, \<open>0\<close> for the empty string and \<open>73\<close> for
  \<open>"test-user-123"\<close>; it reads nothing but its argument, so two calls agree.
  \<open>hashString\<close> of \<open>src/apps/dashboard/lib/targeting.ts\<close> returns the magnitude of the
  32-bit hash, between \<open>0\<close> and \<open>2^31\<close>, also \<open>0\<close> for the empty string; the reduction
  modulo 100 that \<open>isInRollout\<close> applies to it gives the value of the other file.
\<close>

theorem hashString_ranges:
  "0 \<le> hashString_p5 s \<and> hashString_p5 s < 100
   \<and> hashString_p5 [] = 0
   \<and> hashString_p5 (ascii ''test-user-123'') = 73
   \<and> 0 \<le> hashString_dash s \<and> hashString_dash s \<le> 2 ^ 31
   \<and> hashString_dash [] = 0
   \<and> hashString_dash (ascii ''test-user-123'') = 1333033973
   \<and> hashString_dash s mod 100 = hashString_p5 s"
  using hashString_p5_range [of s] hashString_dash_range [of s]
  by (simp add: hashString_p5_golden hashString_dash_golden bucket_dash_eq_p5)
    (simp add: hashString_p5_def hashString_dash_def)

text \<open>
  Claim C6 as stated fails for \<open>hashString\<close> of \<open>src/apps/dashboard/lib/targeting.ts\<close>:
  on \<open>"aa"\<close> it returns \<open>3104\<close>.
\<close>

theorem hashString_dash_not_below_100:
  "\<not> (0 \<le> hashString_dash (ascii ''aa'') \<and> hashString_dash (ascii ''aa'') < 100)"
  by (simp add: hashString_dash_aa)

text \<open>
  Claim C9. The two rollout tests agree: for every user id, flag key and percentage,
  \<open>isInRollout\<close> of \<open>src/apps/dashboard/lib/targeting.ts\<close> and \<open>isInRollout\<close> of
  \<open>src/unnamed/part_005\<close> return the same boolean.
\<close>

theorem isInRollout_dash_eq_p5:
  "isInRollout_dash userId flagKey percentage = isInRollout_p5 userId flagKey percentage"
  by (simp add: isInRollout_dash_def isInRollout_p5_def bucket_dash_eq_p5 Let_def)

section \<open>Properties of the condition evaluators\<close>

lemma evaluateCondition_p5_undefined: "\<not> evaluateCondition_p5 rt JUndefined op v"
  by (simp add: evaluateCondition_p5_def)

lemma attribute_of_undefined:
  "(case attributes user of None \<Rightarrow> True
    | Some own \<Rightarrow>
        own name = Some JUndefined \<or> (own name = None \<and> map_of Object_prototype name = None))
   \<Longrightarrow> attribute_of user name = JUndefined"
  by (auto simp: attribute_of_def split: option.splits)

lemma attribute_of_inherited:
  "attributes user = Some own \<Longrightarrow> own name = None \<Longrightarrow>
   map_of Object_prototype name = Some v \<Longrightarrow> attribute_of user name = v"
  by (simp add: attribute_of_def)

lemma Object_prototype_constructor:
  "map_of Object_prototype (ascii ''constructor'') = Some (JFunction 0)"
  by (simp add: Object_prototype_def)

lemma Object_prototype_plan:
  "map_of Object_prototype (ascii ''plan'') = None"
  by (simp add: Object_prototype_def ascii_def)

lemma evaluateCondition_dash_undefined:
  "attribute_of user (attribute c) = JUndefined \<Longrightarrow> \<not> evaluateCondition_dash rt c user"
  by (simp add: evaluateCondition_dash_def)

lemma evaluateConditionWithUser_undefined:
  "attribute_of user (attribute c) = JUndefined \<Longrightarrow> \<not> evaluateConditionWithUser rt c user"
  by (simp add: evaluateConditionWithUser_def evaluateCondition_p5_undefined)

lemma array_includes_strings:
  "array_includes (map JStr ss) (JStr u) = (u \<in> set ss)"
  by (induction ss) (auto simp: array_includes_def)

lemma in_array_p5:
  "evaluateCondition_p5 rt uv OpIn (JArray a xs) = (uv \<noteq> JUndefined \<and> array_includes xs uv)"
  by (simp add: evaluateCondition_p5_def is_array_def elements_def)

lemma in_string_p5:
  "evaluateCondition_p5 rt (JStr u) OpIn (JStr s) = (u \<in> set (map js_trim (js_split s 0x2C)))"
proof -
  have "map (\<lambda>v. JStr (js_trim v)) (js_split s 0x2C) = map JStr (map js_trim (js_split s 0x2C))"
    by simp
  then show ?thesis
    by (simp only: evaluateCondition_p5_def is_array_def array_includes_strings Let_def
        js_String.simps jsval.simps Operator.simps if_False)
qed

lemma split_TR: "js_split (ascii ''TR,US,UK'') 0x2C = [ascii ''TR'', ascii ''US'', ascii ''UK'']"
  by (simp add: ascii_def)

lemma trim_TR:
  "js_trim (ascii ''TR'') = ascii ''TR''"
  "js_trim (ascii ''US'') = ascii ''US''"
  "js_trim (ascii ''UK'') = ascii ''UK''"
  by (simp_all add: ascii_def js_trim_def is_js_space_def)

section \<open>Properties of rule and targeting evaluation\<close>

lemma random_bucket_range: "0 \<le> random_bucket r \<and> random_bucket r < 100"
proof -
  have "0 \<le> draw_value r" and "draw_value r < 1"
    by (transfer, simp)+
  then have "0 \<le> draw_value r * 100" and "draw_value r * 100 < 100"
    by simp_all
  then show ?thesis
    unfolding random_bucket_def by (simp add: floor_less_iff)
qed

lemma random_bucket_zero: "random_bucket draw_zero = 0"
  by (simp add: random_bucket_def draw_value.rep_eq draw_zero.rep_eq)

lemma random_bucket_half: "random_bucket draw_half = 50"
  by (simp add: random_bucket_def draw_value.rep_eq draw_half.rep_eq)

lemma id_or_anonymous_identified:
  "user_id user = Some uid \<Longrightarrow> uid \<noteq> [] \<Longrightarrow> id_or_anonymous rt user rnd = (uid, rnd)"
  by (simp add: id_or_anonymous_def)

lemma id_or_anonymous_falsy:
  "user_id user = None \<or> user_id user = Some [] \<Longrightarrow>
   id_or_anonymous rt user rnd = (anonymous_id rt (shd rnd), stl rnd)"
  by (auto simp: id_or_anonymous_def Math_random_def)

lemma id_or_anonymous_empty_id:
  "id_or_anonymous rt (user\<lparr>user_id := Some []\<rparr>) rnd =
   id_or_anonymous rt (user\<lparr>user_id := None\<rparr>) rnd"
  by (simp add: id_or_anonymous_def)

subsection \<open>\<open>src/apps/dashboard/lib/targeting.ts\<close>\<close>

lemma evaluateTargeting_dash_bypass:
  "(case targeting of None \<Rightarrow> True | Some t \<Rightarrow> \<not> enabled t) \<Longrightarrow>
   evaluateTargeting_dash rt flagKey targeting user defaultValue rnd =
     (\<lparr>eval_enabled = True, eval_value = defaultValue\<rparr>, rnd)"
  by (auto simp: evaluateTargeting_dash_def split: option.splits)

lemma evaluateRule_dash_anonymous:
  "user_id user = None \<or> user_id user = Some [] \<Longrightarrow> rule_enabled rule \<Longrightarrow>
   list_all (\<lambda>c. evaluateCondition_dash rt c user) (conditions rule) \<Longrightarrow>
   evaluateRule_dash rt rule user flagKey rnd =
     (\<lparr>matches = num_lt (of_integer_value (random_bucket (shd rnd))) (rolloutPercentage rule),
       matched_value = rule_value rule\<rparr>, stl rnd)"
  by (auto simp: evaluateRule_dash_def Math_random_def Let_def)

lemma evaluateRule_dash_identified:
  "user_id user = Some uid \<Longrightarrow> uid \<noteq> [] \<Longrightarrow> rule_enabled rule \<Longrightarrow>
   list_all (\<lambda>c. evaluateCondition_dash rt c user) (conditions rule) \<Longrightarrow>
   evaluateRule_dash rt rule user flagKey rnd =
     (\<lparr>matches = isInRollout_dash uid flagKey (rolloutPercentage rule),
       matched_value = rule_value rule\<rparr>, rnd)"
  by (simp add: evaluateRule_dash_def Let_def)

lemma evaluateRule_dash_skipped:
  "\<not> rule_enabled rule \<or> \<not> list_all (\<lambda>c. evaluateCondition_dash rt c user) (conditions rule) \<Longrightarrow>
   evaluateRule_dash rt rule user flagKey rnd = (\<lparr>matches = False, matched_value = JUndefined\<rparr>, rnd)"
  by (auto simp: evaluateRule_dash_def Let_def)

lemma rules_loop_dash_none:
  "no_rule_matches (\<lambda>r. list_all (\<lambda>c. evaluateCondition_dash rt c user) (conditions r))
      (\<lambda>u p. isInRollout_dash u flagKey p) (user_id user) rs rnd = Some rnd'
   \<Longrightarrow> rules_loop_dash rt rs user flagKey rnd = (None, rnd')"
proof (induction rs arbitrary: rnd)
  case Nil
  then show ?case by simp
next
  case (Cons rule rest)
  let ?ok = "list_all (\<lambda>c. evaluateCondition_dash rt c user) (conditions rule)"
  show ?case
  proof (cases "rule_enabled rule \<and> ?ok")
    case False
    then have "evaluateRule_dash rt rule user flagKey rnd
                 = (\<lparr>matches = False, matched_value = JUndefined\<rparr>, rnd)"
      by (intro evaluateRule_dash_skipped) auto
    moreover from False Cons.prems have
      "no_rule_matches (\<lambda>r. list_all (\<lambda>c. evaluateCondition_dash rt c user) (conditions r))
         (\<lambda>u p. isInRollout_dash u flagKey p) (user_id user) rest rnd = Some rnd'"
      by (auto split: if_splits)
    ultimately show ?thesis
      using Cons.IH [of rnd] by simp
  next
    case True
    show ?thesis
    proof (cases "user_id user = None \<or> user_id user = Some []")
      case anon: True
      have ev: "evaluateRule_dash rt rule user flagKey rnd =
         (\<lparr>matches = num_lt (of_integer_value (random_bucket (shd rnd))) (rolloutPercentage rule),
           matched_value = rule_value rule\<rparr>, stl rnd)"
        using anon True by (intro evaluateRule_dash_anonymous) auto
      from True anon Cons.prems have
        miss: "\<not> num_lt (of_integer_value (random_bucket (shd rnd))) (rolloutPercentage rule)"
        and rest: "no_rule_matches (\<lambda>r. list_all (\<lambda>c. evaluateCondition_dash rt c user) (conditions r))
         (\<lambda>u p. isInRollout_dash u flagKey p) (user_id user) rest (stl rnd) = Some rnd'"
        by (auto split: if_splits)
      show ?thesis
        using ev miss Cons.IH [OF rest] by simp
    next
      case ident: False
      then obtain uid where uid: "user_id user = Some uid" "uid \<noteq> []"
        by (cases "user_id user") auto
      have ev: "evaluateRule_dash rt rule user flagKey rnd =
         (\<lparr>matches = isInRollout_dash uid flagKey (rolloutPercentage rule),
           matched_value = rule_value rule\<rparr>, rnd)"
        using uid True by (intro evaluateRule_dash_identified) auto
      from True uid Cons.prems have
        miss: "\<not> isInRollout_dash uid flagKey (rolloutPercentage rule)"
        and rest: "no_rule_matches (\<lambda>r. list_all (\<lambda>c. evaluateCondition_dash rt c user) (conditions r))
         (\<lambda>u p. isInRollout_dash u flagKey p) (user_id user) rest rnd = Some rnd'"
        by (auto split: if_splits)
      show ?thesis
        using ev miss Cons.IH [OF rest] by simp
    qed
  qed
qed


lemma evaluateRule_dash_pct0:
  "rolloutPercentage rule = Fin 0 \<Longrightarrow> \<not> matches (fst (evaluateRule_dash rt rule user flagKey rnd))"
  using random_bucket_range [of "shd rnd"]
  by (auto simp: evaluateRule_dash_def Math_random_def Let_def of_integer_value_def
      split: option.splits)

lemma evaluateRule_dash_pct100:
  "rule_enabled rule \<Longrightarrow> list_all (\<lambda>c. evaluateCondition_dash rt c user) (conditions rule) \<Longrightarrow>
   rolloutPercentage rule = Fin 100 \<Longrightarrow>
   fst (evaluateRule_dash rt rule user flagKey rnd) = \<lparr>matches = True, matched_value = rule_value rule\<rparr>"
  using random_bucket_range [of "shd rnd"]
  by (auto simp: evaluateRule_dash_def Math_random_def Let_def of_integer_value_def
      split: option.splits)

lemma evaluateTargeting_dash_next:
  assumes "enabled t" and "rules t = rule # rest"
    and "\<not> matches (fst (evaluateRule_dash rt rule user flagKey rnd))"
  shows "evaluateTargeting_dash rt flagKey (Some t) user dv rnd =
         evaluateTargeting_dash rt flagKey (Some (t\<lparr>rules := rest\<rparr>)) user dv
           (snd (evaluateRule_dash rt rule user flagKey rnd))"
  using assms by (simp add: evaluateTargeting_dash_def split_beta split: option.split)

lemma evaluateTargeting_dash_first:
  assumes "enabled t" and "rules t = rule # rest"
    and "fst (evaluateRule_dash rt rule user flagKey rnd) = \<lparr>matches = True, matched_value = v\<rparr>"
  shows "fst (evaluateTargeting_dash rt flagKey (Some t) user dv rnd) =
         \<lparr>eval_enabled = True, eval_value = v\<rparr>"
  using assms by (simp add: evaluateTargeting_dash_def split_beta)

lemma cascade_dash:
  assumes "enabled t" and "rules t = r1 # r2 # rest"
    and "rolloutPercentage r1 = Fin 0"
    and "rule_enabled r2" and "list_all (\<lambda>c. evaluateCondition_dash rt c user) (conditions r2)"
    and "rolloutPercentage r2 = Fin 100"
  shows "fst (evaluateTargeting_dash rt flagKey (Some t) user dv rnd) =
         \<lparr>eval_enabled = True, eval_value = rule_value r2\<rparr>"
proof -
  let ?rnd' = "snd (evaluateRule_dash rt r1 user flagKey rnd)"
  let ?t' = "t\<lparr>rules := r2 # rest\<rparr>"
  have "evaluateTargeting_dash rt flagKey (Some t) user dv rnd =
        evaluateTargeting_dash rt flagKey (Some ?t') user dv ?rnd'"
    using assms(1,2,3) by (intro evaluateTargeting_dash_next evaluateRule_dash_pct0) auto
  moreover have "fst (evaluateTargeting_dash rt flagKey (Some ?t') user dv ?rnd') =
        \<lparr>eval_enabled = True, eval_value = rule_value r2\<rparr>"
    using assms(1,4,5,6)
    by (intro evaluateTargeting_dash_first [where rule = r2 and rest = rest]
        evaluateRule_dash_pct100) auto
  ultimately show ?thesis by simp
qed

lemma evaluateTargeting_dash_fallback:
  assumes "enabled t"
    and "no_rule_matches (\<lambda>r. list_all (\<lambda>c. evaluateCondition_dash rt c user) (conditions r))
           (\<lambda>u p. isInRollout_dash u flagKey p) (user_id user) (rules t) rnd = Some rnd'"
  shows "evaluateTargeting_dash rt flagKey (Some t) user dv rnd =
     (\<lparr>eval_enabled = isInRollout_dash (fst (id_or_anonymous rt user rnd')) flagKey
                        (default_rolloutPercentage (defaultRule t)),
       eval_value = default_value (defaultRule t)\<rparr>,
      snd (id_or_anonymous rt user rnd'))"
  using assms(1) rules_loop_dash_none [OF assms(2)]
  by (simp add: evaluateTargeting_dash_def split_beta Let_def)

lemma evaluateRule_dash_no_draw:
  assumes "user_id user = Some uid" and "uid \<noteq> []"
  shows "evaluateRule_dash rt rule user flagKey rnd =
         (fst (evaluateRule_dash rt rule user flagKey rnd0), rnd)"
  using assms by (simp add: evaluateRule_dash_def Let_def)

lemma rules_loop_dash_no_draw:
  assumes "user_id user = Some uid" and "uid \<noteq> []"
  shows "rules_loop_dash rt rs user flagKey rnd =
         (fst (rules_loop_dash rt rs user flagKey rnd0), rnd)"
proof (induction rs)
  case Nil
  show ?case by simp
next
  case (Cons rule rest)
  define res where "res = fst (evaluateRule_dash rt rule user flagKey rnd0)"
  have here: "evaluateRule_dash rt rule user flagKey rnd = (res, rnd)"
    unfolding res_def by (rule evaluateRule_dash_no_draw [OF assms])
  have there: "evaluateRule_dash rt rule user flagKey rnd0 = (res, rnd0)"
    unfolding res_def by (rule evaluateRule_dash_no_draw [OF assms])
  show ?case
    using Cons.IH by (simp add: here there)
qed

lemma evaluateTargeting_dash_no_draw:
  assumes "user_id user = Some uid" and "uid \<noteq> []"
  shows "evaluateTargeting_dash rt flagKey targeting user dv rnd =
         (fst (evaluateTargeting_dash rt flagKey targeting user dv rnd0), rnd)"
proof -
  have a: "rules_loop_dash rt rs user flagKey rnd =
         (fst (rules_loop_dash rt rs user flagKey rnd0), rnd)" for rs
    by (rule rules_loop_dash_no_draw [OF assms])
  have b: "rules_loop_dash rt rs user flagKey rnd0 =
         (fst (rules_loop_dash rt rs user flagKey rnd0), rnd0)" for rs
    by (rule rules_loop_dash_no_draw [OF assms])
  show ?thesis
  proof (cases targeting)
    case None
    then show ?thesis by (simp add: evaluateTargeting_dash_def)
  next
    case (Some t)
    show ?thesis
    proof (cases "fst (rules_loop_dash rt (rules t) user flagKey rnd0)")
      case None
      then show ?thesis
        using Some a [of "rules t"] b [of "rules t"]
        by (simp add: evaluateTargeting_dash_def id_or_anonymous_identified [OF assms])
    next
      case (Some v)
      then show ?thesis
        using \<open>targeting = Some t\<close> a [of "rules t"] b [of "rules t"]
        by (simp add: evaluateTargeting_dash_def)
    qed
  qed
qed

lemma evaluateRule_dash_empty_id:
  "evaluateRule_dash rt rule (user\<lparr>user_id := Some []\<rparr>) flagKey rnd =
   evaluateRule_dash rt rule (user\<lparr>user_id := None\<rparr>) flagKey rnd"
  by (simp add: evaluateRule_dash_def evaluateCondition_dash_def attribute_of_def Let_def)

lemma rules_loop_dash_empty_id:
  "rules_loop_dash rt rs (user\<lparr>user_id := Some []\<rparr>) flagKey rnd =
   rules_loop_dash rt rs (user\<lparr>user_id := None\<rparr>) flagKey rnd"
  by (induction rs arbitrary: rnd) (simp_all add: evaluateRule_dash_empty_id split_beta)

lemma evaluateTargeting_dash_empty_id:
  "evaluateTargeting_dash rt flagKey targeting (user\<lparr>user_id := Some []\<rparr>) dv rnd =
   evaluateTargeting_dash rt flagKey targeting (user\<lparr>user_id := None\<rparr>) dv rnd"
  unfolding evaluateTargeting_dash_def rules_loop_dash_empty_id id_or_anonymous_empty_id ..

subsection \<open>\<open>src/unnamed/part_005\<close>\<close>

lemma evaluateTargeting_p5_bypass:
  "(case targeting of None \<Rightarrow> True | Some t \<Rightarrow> \<not> enabled t) \<Longrightarrow>
   evaluateTargeting_p5 rt flagKey targeting user defaultValue rnd =
     (\<lparr>eval_enabled = True, eval_value = defaultValue\<rparr>, rnd)"
  by (auto simp: evaluateTargeting_p5_def split: option.splits)

lemma evaluateRule_p5_anonymous:
  "user_id user = None \<or> user_id user = Some [] \<Longrightarrow> rule_enabled rule \<Longrightarrow>
   list_all (\<lambda>c. evaluateConditionWithUser rt c user) (conditions rule) \<Longrightarrow>
   evaluateRule_p5 rt rule user flagKey rnd =
     (\<lparr>matches = num_lt (of_integer_value (random_bucket (shd rnd))) (rolloutPercentage rule),
       matched_value = rule_value rule\<rparr>, stl rnd)"
  by (auto simp: evaluateRule_p5_def Math_random_def Let_def)

lemma evaluateRule_p5_identified:
  "user_id user = Some uid \<Longrightarrow> uid \<noteq> [] \<Longrightarrow> rule_enabled rule \<Longrightarrow>
   list_all (\<lambda>c. evaluateConditionWithUser rt c user) (conditions rule) \<Longrightarrow>
   evaluateRule_p5 rt rule user flagKey rnd =
     (\<lparr>matches = isInRollout_p5 uid flagKey (rolloutPercentage rule),
       matched_value = rule_value rule\<rparr>, rnd)"
  by (simp add: evaluateRule_p5_def Let_def)

lemma evaluateRule_p5_skipped:
  "\<not> rule_enabled rule \<or> \<not> list_all (\<lambda>c. evaluateConditionWithUser rt c user) (conditions rule) \<Longrightarrow>
   evaluateRule_p5 rt rule user flagKey rnd = (\<lparr>matches = False, matched_value = JUndefined\<rparr>, rnd)"
  by (auto simp: evaluateRule_p5_def Let_def)

lemma rules_loop_p5_none:
  "no_rule_matches (\<lambda>r. list_all (\<lambda>c. evaluateConditionWithUser rt c user) (conditions r))
      (\<lambda>u p. isInRollout_p5 u flagKey p) (user_id user) rs rnd = Some rnd'
   \<Longrightarrow> rules_loop_p5 rt rs user flagKey rnd = (None, rnd')"
proof (induction rs arbitrary: rnd)
  case Nil
  then show ?case by simp
next
  case (Cons rule rest)
  let ?ok = "list_all (\<lambda>c. evaluateConditionWithUser rt c user) (conditions rule)"
  show ?case
  proof (cases "rule_enabled rule \<and> ?ok")
    case False
    then have "evaluateRule_p5 rt rule user flagKey rnd
                 = (\<lparr>matches = False, matched_value = JUndefined\<rparr>, rnd)"
      by (intro evaluateRule_p5_skipped) auto
    moreover from False Cons.prems have
      "no_rule_matches (\<lambda>r. list_all (\<lambda>c. evaluateConditionWithUser rt c user) (conditions r))
         (\<lambda>u p. isInRollout_p5 u flagKey p) (user_id user) rest rnd = Some rnd'"
      by (auto split: if_splits)
    ultimately show ?thesis
      using Cons.IH [of rnd] by simp
  next
    case True
    show ?thesis
    proof (cases "user_id user = None \<or> user_id user = Some []")
      case anon: True
      have ev: "evaluateRule_p5 rt rule user flagKey rnd =
         (\<lparr>matches = num_lt (of_integer_value (random_bucket (shd rnd))) (rolloutPercentage rule),
           matched_value = rule_value rule\<rparr>, stl rnd)"
        using anon True by (intro evaluateRule_p5_anonymous) auto
      from True anon Cons.prems have
        miss: "\<not> num_lt (of_integer_value (random_bucket (shd rnd))) (rolloutPercentage rule)"
        and rest: "no_rule_matches (\<lambda>r. list_all (\<lambda>c. evaluateConditionWithUser rt c user) (conditions r))
         (\<lambda>u p. isInRollout_p5 u flagKey p) (user_id user) rest (stl rnd) = Some rnd'"
        by (auto split: if_splits)
      show ?thesis
        using ev miss Cons.IH [OF rest] by simp
    next
      case ident: False
      then obtain uid where uid: "user_id user = Some uid" "uid \<noteq> []"
        by (cases "user_id user") auto
      have ev: "evaluateRule_p5 rt rule user flagKey rnd =
         (\<lparr>matches = isInRollout_p5 uid flagKey (rolloutPercentage rule),
           matched_value = rule_value rule\<rparr>, rnd)"
        using uid True by (intro evaluateRule_p5_identified) auto
      from True uid Cons.prems have
        miss: "\<not> isInRollout_p5 uid flagKey (rolloutPercentage rule)"
        and rest: "no_rule_matches (\<lambda>r. list_all (\<lambda>c. evaluateConditionWithUser rt c user) (conditions r))
         (\<lambda>u p. isInRollout_p5 u flagKey p) (user_id user) rest rnd = Some rnd'"
        by (auto split: if_splits)
      show ?thesis
        using ev miss Cons.IH [OF rest] by simp
    qed
  qed
qed


lemma evaluateRule_p5_pct0:
  "rolloutPercentage rule = Fin 0 \<Longrightarrow> \<not> matches (fst (evaluateRule_p5 rt rule user flagKey rnd))"
  using random_bucket_range [of "shd rnd"]
  by (auto simp: evaluateRule_p5_def Math_random_def Let_def of_integer_value_def
      split: option.splits)

lemma evaluateRule_p5_pct100:
  "rule_enabled rule \<Longrightarrow> list_all (\<lambda>c. evaluateConditionWithUser rt c user) (conditions rule) \<Longrightarrow>
   rolloutPercentage rule = Fin 100 \<Longrightarrow>
   fst (evaluateRule_p5 rt rule user flagKey rnd) = \<lparr>matches = True, matched_value = rule_value rule\<rparr>"
  using random_bucket_range [of "shd rnd"]
  by (auto simp: evaluateRule_p5_def Math_random_def Let_def of_integer_value_def
      split: option.splits)

lemma evaluateTargeting_p5_next:
  assumes "enabled t" and "rules t = rule # rest"
    and "\<not> matches (fst (evaluateRule_p5 rt rule user flagKey rnd))"
  shows "evaluateTargeting_p5 rt flagKey (Some t) user dv rnd =
         evaluateTargeting_p5 rt flagKey (Some (t\<lparr>rules := rest\<rparr>)) user dv
           (snd (evaluateRule_p5 rt rule user flagKey rnd))"
  using assms by (simp add: evaluateTargeting_p5_def split_beta split: option.split)

lemma evaluateTargeting_p5_first:
  assumes "enabled t" and "rules t = rule # rest"
    and "fst (evaluateRule_p5 rt rule user flagKey rnd) = \<lparr>matches = True, matched_value = v\<rparr>"
  shows "fst (evaluateTargeting_p5 rt flagKey (Some t) user dv rnd) =
         \<lparr>eval_enabled = True, eval_value = v\<rparr>"
  using assms by (simp add: evaluateTargeting_p5_def split_beta)

lemma cascade_p5:
  assumes "enabled t" and "rules t = r1 # r2 # rest"
    and "rolloutPercentage r1 = Fin 0"
    and "rule_enabled r2" and "list_all (\<lambda>c. evaluateConditionWithUser rt c user) (conditions r2)"
    and "rolloutPercentage r2 = Fin 100"
  shows "fst (evaluateTargeting_p5 rt flagKey (Some t) user dv rnd) =
         \<lparr>eval_enabled = True, eval_value = rule_value r2\<rparr>"
proof -
  let ?rnd' = "snd (evaluateRule_p5 rt r1 user flagKey rnd)"
  let ?t' = "t\<lparr>rules := r2 # rest\<rparr>"
  have "evaluateTargeting_p5 rt flagKey (Some t) user dv rnd =
        evaluateTargeting_p5 rt flagKey (Some ?t') user dv ?rnd'"
    using assms(1,2,3) by (intro evaluateTargeting_p5_next evaluateRule_p5_pct0) auto
  moreover have "fst (evaluateTargeting_p5 rt flagKey (Some ?t') user dv ?rnd') =
        \<lparr>eval_enabled = True, eval_value = rule_value r2\<rparr>"
    using assms(1,4,5,6)
    by (intro evaluateTargeting_p5_first [where rule = r2 and rest = rest]
        evaluateRule_p5_pct100) auto
  ultimately show ?thesis by simp
qed

lemma evaluateTargeting_p5_fallback:
  assumes "enabled t"
    and "no_rule_matches (\<lambda>r. list_all (\<lambda>c. evaluateConditionWithUser rt c user) (conditions r))
           (\<lambda>u p. isInRollout_p5 u flagKey p) (user_id user) (rules t) rnd = Some rnd'"
  shows "evaluateTargeting_p5 rt flagKey (Some t) user dv rnd =
     (\<lparr>eval_enabled = isInRollout_p5 (fst (id_or_anonymous rt user rnd')) flagKey
                        (default_rolloutPercentage (defaultRule t)),
       eval_value = default_value (defaultRule t)\<rparr>,
      snd (id_or_anonymous rt user rnd'))"
  using assms(1) rules_loop_p5_none [OF assms(2)]
  by (simp add: evaluateTargeting_p5_def split_beta Let_def)

lemma evaluateRule_p5_no_draw:
  assumes "user_id user = Some uid" and "uid \<noteq> []"
  shows "evaluateRule_p5 rt rule user flagKey rnd =
         (fst (evaluateRule_p5 rt rule user flagKey rnd0), rnd)"
  using assms by (simp add: evaluateRule_p5_def Let_def)

lemma rules_loop_p5_no_draw:
  assumes "user_id user = Some uid" and "uid \<noteq> []"
  shows "rules_loop_p5 rt rs user flagKey rnd =
         (fst (rules_loop_p5 rt rs user flagKey rnd0), rnd)"
proof (induction rs)
  case Nil
  show ?case by simp
next
  case (Cons rule rest)
  define res where "res = fst (evaluateRule_p5 rt rule user flagKey rnd0)"
  have here: "evaluateRule_p5 rt rule user flagKey rnd = (res, rnd)"
    unfolding res_def by (rule evaluateRule_p5_no_draw [OF assms])
  have there: "evaluateRule_p5 rt rule user flagKey rnd0 = (res, rnd0)"
    unfolding res_def by (rule evaluateRule_p5_no_draw [OF assms])
  show ?case
    using Cons.IH by (simp add: here there)
qed

lemma evaluateTargeting_p5_no_draw:
  assumes "user_id user = Some uid" and "uid \<noteq> []"
  shows "evaluateTargeting_p5 rt flagKey targeting user dv rnd =
         (fst (evaluateTargeting_p5 rt flagKey targeting user dv rnd0), rnd)"
proof -
  have a: "rules_loop_p5 rt rs user flagKey rnd =
         (fst (rules_loop_p5 rt rs user flagKey rnd0), rnd)" for rs
    by (rule rules_loop_p5_no_draw [OF assms])
  have b: "rules_loop_p5 rt rs user flagKey rnd0 =
         (fst (rules_loop_p5 rt rs user flagKey rnd0), rnd0)" for rs
    by (rule rules_loop_p5_no_draw [OF assms])
  show ?thesis
  proof (cases targeting)
    case None
    then show ?thesis by (simp add: evaluateTargeting_p5_def)
  next
    case (Some t)
    show ?thesis
    proof (cases "fst (rules_loop_p5 rt (rules t) user flagKey rnd0)")
      case None
      then show ?thesis
        using Some a [of "rules t"] b [of "rules t"]
        by (simp add: evaluateTargeting_p5_def id_or_anonymous_identified [OF assms])
    next
      case (Some v)
      then show ?thesis
        using \<open>targeting = Some t\<close> a [of "rules t"] b [of "rules t"]
        by (simp add: evaluateTargeting_p5_def)
    qed
  qed
qed

lemma evaluateRule_p5_empty_id:
  "evaluateRule_p5 rt rule (user\<lparr>user_id := Some []\<rparr>) flagKey rnd =
   evaluateRule_p5 rt rule (user\<lparr>user_id := None\<rparr>) flagKey rnd"
  by (simp add: evaluateRule_p5_def evaluateConditionWithUser_def attribute_of_def Let_def)

lemma rules_loop_p5_empty_id:
  "rules_loop_p5 rt rs (user\<lparr>user_id := Some []\<rparr>) flagKey rnd =
   rules_loop_p5 rt rs (user\<lparr>user_id := None\<rparr>) flagKey rnd"
  by (induction rs arbitrary: rnd) (simp_all add: evaluateRule_p5_empty_id split_beta)

lemma evaluateTargeting_p5_empty_id:
  "evaluateTargeting_p5 rt flagKey targeting (user\<lparr>user_id := Some []\<rparr>) dv rnd =
   evaluateTargeting_p5 rt flagKey targeting (user\<lparr>user_id := None\<rparr>) dv rnd"
  unfolding evaluateTargeting_p5_def rules_loop_p5_empty_id id_or_anonymous_empty_id ..

section \<open>The claims about evaluation\<close>

lemma premium_user_conditions:
  "list_all (\<lambda>c. evaluateCondition_dash rt c premium_user) (conditions (premium_rule p v))"
  "list_all (\<lambda>c. evaluateCondition_dash rt c premium_user) (conditions (country_rule p v))"
  "list_all (\<lambda>c. evaluateConditionWithUser rt c premium_user) (conditions (premium_rule p v))"
  "list_all (\<lambda>c. evaluateConditionWithUser rt c premium_user) (conditions (country_rule p v))"
  by (simp_all add: premium_user_def premium_rule_def country_rule_def evaluateCondition_dash_def
      evaluateConditionWithUser_def evaluateCondition_p5_def attribute_of_def is_array_def
      elements_def array_includes_def ascii_def)

lemma free_user_conditions:
  "\<not> list_all (\<lambda>c. evaluateCondition_dash rt c free_user) (conditions (premium_rule p v))"
  "\<not> list_all (\<lambda>c. evaluateConditionWithUser rt c free_user) (conditions (premium_rule p v))"
  by (simp_all add: free_user_def premium_rule_def evaluateCondition_dash_def
      evaluateConditionWithUser_def evaluateCondition_p5_def attribute_of_def ascii_def)

text \<open>
  Claim C1. When targeting is undefined or its \<open>enabled\<close> switch is false,
  \<open>evaluateTargeting\<close> returns \<open>{enabled: true, value: defaultValue}\<close> for every flag key,
  user and default value, whatever the rules and the default rule contain, and takes no
  random draw. Both files.
\<close>

theorem targeting_disabled_bypass:
  "(case targeting of None \<Rightarrow> True | Some t \<Rightarrow> \<not> enabled t) \<Longrightarrow>
   evaluateTargeting_dash rt flagKey targeting user defaultValue rnd =
     (\<lparr>eval_enabled = True, eval_value = defaultValue\<rparr>, rnd)
   \<and> evaluateTargeting_p5 rt flagKey targeting user defaultValue rnd =
     (\<lparr>eval_enabled = True, eval_value = defaultValue\<rparr>, rnd)"
  by (simp add: evaluateTargeting_dash_bypass evaluateTargeting_p5_bypass)

text \<open>
  An instance: the disabled targeting has a rule and a default rule at 100 percent whose
  values differ from the plain default; the plain default is returned.
\<close>

theorem targeting_disabled_bypass_witness:
  "\<not> enabled disabled_targeting
   \<and> default_value (defaultRule disabled_targeting) = JStr (ascii ''from-default-rule'')
   \<and> evaluateTargeting_dash example_coercions (ascii ''test-flag'') (Some disabled_targeting)
        premium_user (JStr (ascii ''plain'')) (sconst draw_half) =
       (\<lparr>eval_enabled = True, eval_value = JStr (ascii ''plain'')\<rparr>, sconst draw_half)
   \<and> evaluateTargeting_p5 example_coercions (ascii ''test-flag'') (Some disabled_targeting)
        premium_user (JStr (ascii ''plain'')) (sconst draw_half) =
       (\<lparr>eval_enabled = True, eval_value = JStr (ascii ''plain'')\<rparr>, sconst draw_half)
   \<and> evaluateTargeting_dash example_coercions (ascii ''test-flag'') None
        premium_user (JStr (ascii ''plain'')) (sconst draw_half) =
       (\<lparr>eval_enabled = True, eval_value = JStr (ascii ''plain'')\<rparr>, sconst draw_half)
   \<and> evaluateTargeting_p5 example_coercions (ascii ''test-flag'') None
        premium_user (JStr (ascii ''plain'')) (sconst draw_half) =
       (\<lparr>eval_enabled = True, eval_value = JStr (ascii ''plain'')\<rparr>, sconst draw_half)"
proof -
  have off: "\<not> enabled disabled_targeting"
    and dv: "default_value (defaultRule disabled_targeting) = JStr (ascii ''from-default-rule'')"
    by (simp_all add: disabled_targeting_def)
  show ?thesis
    using off dv
      targeting_disabled_bypass [of "Some disabled_targeting" example_coercions
        "ascii ''test-flag''" premium_user "JStr (ascii ''plain'')" "sconst draw_half"]
      targeting_disabled_bypass [of None example_coercions
        "ascii ''test-flag''" premium_user "JStr (ascii ''plain'')" "sconst draw_half"]
    by simp
qed

text \<open>
  Claim C2. An enabled rule whose conditions all match but whose rollout gate excludes the
  user counts as not matching: \<open>evaluateTargeting\<close> goes on with the rules after it (first
  two conjuncts, one per file). In particular, with two enabled rules whose conditions match,
  the first at 0 percent and the second at 100 percent, the result is
  \<open>{enabled: true, value: <value of the second rule>}\<close>; this holds for every user, with
  an id or without (last two conjuncts).
\<close>

theorem rollout_miss_cascades:
  "(enabled t \<and> rules t = rule # rest \<and> rule_enabled rule
      \<and> list_all (\<lambda>c. evaluateCondition_dash rt c user) (conditions rule)
      \<and> \<not> matches (fst (evaluateRule_dash rt rule user flagKey rnd))
    \<longrightarrow> evaluateTargeting_dash rt flagKey (Some t) user dv rnd =
        evaluateTargeting_dash rt flagKey (Some (t\<lparr>rules := rest\<rparr>)) user dv
          (snd (evaluateRule_dash rt rule user flagKey rnd)))
   \<and> (enabled t \<and> rules t = rule # rest \<and> rule_enabled rule
      \<and> list_all (\<lambda>c. evaluateConditionWithUser rt c user) (conditions rule)
      \<and> \<not> matches (fst (evaluateRule_p5 rt rule user flagKey rnd))
    \<longrightarrow> evaluateTargeting_p5 rt flagKey (Some t) user dv rnd =
        evaluateTargeting_p5 rt flagKey (Some (t\<lparr>rules := rest\<rparr>)) user dv
          (snd (evaluateRule_p5 rt rule user flagKey rnd)))
   \<and> (enabled t \<and> rules t = r1 # r2 # others
      \<and> rule_enabled r1 \<and> list_all (\<lambda>c. evaluateCondition_dash rt c user) (conditions r1)
      \<and> rolloutPercentage r1 = Fin 0
      \<and> rule_enabled r2 \<and> list_all (\<lambda>c. evaluateCondition_dash rt c user) (conditions r2)
      \<and> rolloutPercentage r2 = Fin 100
    \<longrightarrow> fst (evaluateTargeting_dash rt flagKey (Some t) user dv rnd) =
        \<lparr>eval_enabled = True, eval_value = rule_value r2\<rparr>)
   \<and> (enabled t \<and> rules t = r1 # r2 # others
      \<and> rule_enabled r1 \<and> list_all (\<lambda>c. evaluateConditionWithUser rt c user) (conditions r1)
      \<and> rolloutPercentage r1 = Fin 0
      \<and> rule_enabled r2 \<and> list_all (\<lambda>c. evaluateConditionWithUser rt c user) (conditions r2)
      \<and> rolloutPercentage r2 = Fin 100
    \<longrightarrow> fst (evaluateTargeting_p5 rt flagKey (Some t) user dv rnd) =
        \<lparr>eval_enabled = True, eval_value = rule_value r2\<rparr>)"
  using evaluateTargeting_dash_next [of t rule rest rt user flagKey rnd dv]
    evaluateTargeting_p5_next [of t rule rest rt user flagKey rnd dv]
    cascade_dash [of t r1 r2 others rt user flagKey dv rnd]
    cascade_p5 [of t r1 r2 others rt user flagKey dv rnd]
  by blast

lemma example_rule_fields:
  "rule_enabled (premium_rule p v)" "rolloutPercentage (premium_rule p v) = p"
  "rule_value (premium_rule p v) = v"
  "rule_enabled (country_rule p v)" "rolloutPercentage (country_rule p v) = p"
  "rule_value (country_rule p v) = v"
  "rule_enabled (gate_rule p v)" "rolloutPercentage (gate_rule p v) = p"
  "rule_value (gate_rule p v) = v" "conditions (gate_rule p v) = []"
  by (simp_all add: premium_rule_def country_rule_def gate_rule_def)

lemma premium_user_id: "user_id premium_user = Some (ascii ''user-123'')" "ascii ''user-123'' \<noteq> []"
  by (simp_all add: premium_user_def ascii_def)

text \<open>
  An instance: a premium user from Turkey, a first rule on the plan at 0 percent and a second
  rule on the country at 100 percent.
\<close>

theorem rollout_miss_cascades_witness:
  "enabled cascade_targeting
   \<and> rules cascade_targeting =
       [premium_rule (Fin 0) (JStr (ascii ''first'')), country_rule (Fin 100) (JStr (ascii ''second''))]
   \<and> list_all (\<lambda>c. evaluateCondition_dash example_coercions c premium_user)
        (conditions (premium_rule (Fin 0) (JStr (ascii ''first''))))
   \<and> list_all (\<lambda>c. evaluateConditionWithUser example_coercions c premium_user)
        (conditions (premium_rule (Fin 0) (JStr (ascii ''first''))))
   \<and> list_all (\<lambda>c. evaluateCondition_dash example_coercions c premium_user)
        (conditions (country_rule (Fin 100) (JStr (ascii ''second''))))
   \<and> list_all (\<lambda>c. evaluateConditionWithUser example_coercions c premium_user)
        (conditions (country_rule (Fin 100) (JStr (ascii ''second''))))
   \<and> \<not> matches (fst (evaluateRule_dash example_coercions
          (premium_rule (Fin 0) (JStr (ascii ''first''))) premium_user (ascii ''test-flag'')
          (sconst draw_zero)))
   \<and> \<not> matches (fst (evaluateRule_p5 example_coercions
          (premium_rule (Fin 0) (JStr (ascii ''first''))) premium_user (ascii ''test-flag'')
          (sconst draw_zero)))
   \<and> evaluateTargeting_dash example_coercions (ascii ''test-flag'') (Some cascade_targeting)
        premium_user (JStr (ascii ''plain'')) (sconst draw_zero) =
      evaluateTargeting_dash example_coercions (ascii ''test-flag'')
        (Some (cascade_targeting\<lparr>rules := [country_rule (Fin 100) (JStr (ascii ''second''))]\<rparr>))
        premium_user (JStr (ascii ''plain''))
        (snd (evaluateRule_dash example_coercions (premium_rule (Fin 0) (JStr (ascii ''first'')))
               premium_user (ascii ''test-flag'') (sconst draw_zero)))
   \<and> evaluateTargeting_p5 example_coercions (ascii ''test-flag'') (Some cascade_targeting)
        premium_user (JStr (ascii ''plain'')) (sconst draw_zero) =
      evaluateTargeting_p5 example_coercions (ascii ''test-flag'')
        (Some (cascade_targeting\<lparr>rules := [country_rule (Fin 100) (JStr (ascii ''second''))]\<rparr>))
        premium_user (JStr (ascii ''plain''))
        (snd (evaluateRule_p5 example_coercions (premium_rule (Fin 0) (JStr (ascii ''first'')))
               premium_user (ascii ''test-flag'') (sconst draw_zero)))
   \<and> fst (evaluateTargeting_dash example_coercions (ascii ''test-flag'') (Some cascade_targeting)
        premium_user (JStr (ascii ''plain'')) (sconst draw_zero)) =
      \<lparr>eval_enabled = True, eval_value = JStr (ascii ''second'')\<rparr>
   \<and> fst (evaluateTargeting_p5 example_coercions (ascii ''test-flag'') (Some cascade_targeting)
        premium_user (JStr (ascii ''plain'')) (sconst draw_zero)) =
      \<lparr>eval_enabled = True, eval_value = JStr (ascii ''second'')\<rparr>"
proof -
  let ?r1 = "premium_rule (Fin 0) (JStr (ascii ''first''))"
  let ?r2 = "country_rule (Fin 100) (JStr (ascii ''second''))"
  note cascades = rollout_miss_cascades [of cascade_targeting ?r1 "[?r2]" example_coercions
      premium_user "ascii ''test-flag''" "sconst draw_zero" "JStr (ascii ''plain'')" ?r1 ?r2 "[]"]
  have on: "enabled cascade_targeting" and rs: "rules cascade_targeting = [?r1, ?r2]"
    by (simp_all add: cascade_targeting_def)
  have c1_dash: "list_all (\<lambda>c. evaluateCondition_dash example_coercions c premium_user) (conditions ?r1)"
    and c2_dash: "list_all (\<lambda>c. evaluateCondition_dash example_coercions c premium_user) (conditions ?r2)"
    and c1_p5: "list_all (\<lambda>c. evaluateConditionWithUser example_coercions c premium_user) (conditions ?r1)"
    and c2_p5: "list_all (\<lambda>c. evaluateConditionWithUser example_coercions c premium_user) (conditions ?r2)"
    by (rule premium_user_conditions)+
  have e1: "rule_enabled ?r1" and p1: "rolloutPercentage ?r1 = Fin 0"
    and e2: "rule_enabled ?r2" and p2: "rolloutPercentage ?r2 = Fin 100"
    by (simp_all add: example_rule_fields)
  have miss_dash: "\<not> matches (fst (evaluateRule_dash example_coercions ?r1 premium_user
      (ascii ''test-flag'') (sconst draw_zero)))"
    by (simp add: evaluateRule_dash_identified [OF premium_user_id] c1_dash e1 p1)
  have miss_p5: "\<not> matches (fst (evaluateRule_p5 example_coercions ?r1 premium_user
      (ascii ''test-flag'') (sconst draw_zero)))"
    by (simp add: evaluateRule_p5_identified [OF premium_user_id] c1_p5 e1 p1)
  have next_dash: "evaluateTargeting_dash example_coercions (ascii ''test-flag'')
        (Some cascade_targeting) premium_user (JStr (ascii ''plain'')) (sconst draw_zero) =
      evaluateTargeting_dash example_coercions (ascii ''test-flag'')
        (Some (cascade_targeting\<lparr>rules := [?r2]\<rparr>)) premium_user (JStr (ascii ''plain''))
        (snd (evaluateRule_dash example_coercions ?r1 premium_user (ascii ''test-flag'')
               (sconst draw_zero)))"
    using cascades on rs e1 c1_dash miss_dash by blast
  have next_p5: "evaluateTargeting_p5 example_coercions (ascii ''test-flag'')
        (Some cascade_targeting) premium_user (JStr (ascii ''plain'')) (sconst draw_zero) =
      evaluateTargeting_p5 example_coercions (ascii ''test-flag'')
        (Some (cascade_targeting\<lparr>rules := [?r2]\<rparr>)) premium_user (JStr (ascii ''plain''))
        (snd (evaluateRule_p5 example_coercions ?r1 premium_user (ascii ''test-flag'')
               (sconst draw_zero)))"
    using cascades on rs e1 c1_p5 miss_p5 by blast
  have "fst (evaluateTargeting_dash example_coercions (ascii ''test-flag'')
        (Some cascade_targeting) premium_user (JStr (ascii ''plain'')) (sconst draw_zero)) =
      \<lparr>eval_enabled = True, eval_value = rule_value ?r2\<rparr>"
    using cascades on rs e1 c1_dash p1 e2 c2_dash p2 by blast
  then have second_dash: "fst (evaluateTargeting_dash example_coercions (ascii ''test-flag'')
        (Some cascade_targeting) premium_user (JStr (ascii ''plain'')) (sconst draw_zero)) =
      \<lparr>eval_enabled = True, eval_value = JStr (ascii ''second'')\<rparr>"
    by (simp only: example_rule_fields)
  have "fst (evaluateTargeting_p5 example_coercions (ascii ''test-flag'')
        (Some cascade_targeting) premium_user (JStr (ascii ''plain'')) (sconst draw_zero)) =
      \<lparr>eval_enabled = True, eval_value = rule_value ?r2\<rparr>"
    using cascades on rs e1 c1_p5 p1 e2 c2_p5 p2 by blast
  then have second_p5: "fst (evaluateTargeting_p5 example_coercions (ascii ''test-flag'')
        (Some cascade_targeting) premium_user (JStr (ascii ''plain'')) (sconst draw_zero)) =
      \<lparr>eval_enabled = True, eval_value = JStr (ascii ''second'')\<rparr>"
    by (simp only: example_rule_fields)
  show ?thesis
    by (intro conjI on rs c1_dash c1_p5 c2_dash c2_p5 miss_dash miss_p5 next_dash next_p5
        second_dash second_p5)
qed

lemma no_rule_matches_identified:
  "uid \<noteq> [] \<Longrightarrow>
   \<forall>r \<in> set rs. \<not> rule_enabled r \<or> \<not> conds_ok r \<or> \<not> in_rollout uid (rolloutPercentage r) \<Longrightarrow>
   no_rule_matches conds_ok in_rollout (Some uid) rs rnd = Some rnd"
  by (induction rs) auto

text \<open>
  Claim C3. With targeting enabled, when no rule matches (each is disabled, or has a
  failing condition, or misses its rollout bucket), \<open>evaluateTargeting\<close> returns
  \<open>{enabled: b, value: targeting.defaultRule.value}\<close> with \<open>b\<close> the rollout test of the
  effective user id (\<open>user.id\<close>, or the anonymous id made from the next draw) at the default
  rule's percentage. The value is that of the default rule whatever \<open>b\<close> is; the
  caller's default value does not occur in the result. The first two conjuncts state it
  for every user, one per file; the last two spell it out for a user with a non-empty id,
  for whom no draw is taken.
\<close>

theorem no_match_fallback:
  "(enabled t
      \<and> no_rule_matches (\<lambda>r. list_all (\<lambda>c. evaluateCondition_dash rt c user) (conditions r))
           (\<lambda>u p. isInRollout_dash u flagKey p) (user_id user) (rules t) rnd = Some rnd'
    \<longrightarrow> evaluateTargeting_dash rt flagKey (Some t) user defaultValue rnd =
          (\<lparr>eval_enabled = isInRollout_dash (fst (id_or_anonymous rt user rnd')) flagKey
                             (default_rolloutPercentage (defaultRule t)),
            eval_value = default_value (defaultRule t)\<rparr>,
           snd (id_or_anonymous rt user rnd')))
   \<and> (enabled t
      \<and> no_rule_matches (\<lambda>r. list_all (\<lambda>c. evaluateConditionWithUser rt c user) (conditions r))
           (\<lambda>u p. isInRollout_p5 u flagKey p) (user_id user) (rules t) rnd = Some rnd'
    \<longrightarrow> evaluateTargeting_p5 rt flagKey (Some t) user defaultValue rnd =
          (\<lparr>eval_enabled = isInRollout_p5 (fst (id_or_anonymous rt user rnd')) flagKey
                             (default_rolloutPercentage (defaultRule t)),
            eval_value = default_value (defaultRule t)\<rparr>,
           snd (id_or_anonymous rt user rnd')))
   \<and> (enabled t \<and> user_id user = Some uid \<and> uid \<noteq> []
      \<and> (\<forall>r \<in> set (rules t).
            \<not> rule_enabled r
            \<or> \<not> list_all (\<lambda>c. evaluateCondition_dash rt c user) (conditions r)
            \<or> \<not> isInRollout_dash uid flagKey (rolloutPercentage r))
    \<longrightarrow> evaluateTargeting_dash rt flagKey (Some t) user defaultValue rnd =
          (\<lparr>eval_enabled = isInRollout_dash uid flagKey (default_rolloutPercentage (defaultRule t)),
            eval_value = default_value (defaultRule t)\<rparr>, rnd))
   \<and> (enabled t \<and> user_id user = Some uid \<and> uid \<noteq> []
      \<and> (\<forall>r \<in> set (rules t).
            \<not> rule_enabled r
            \<or> \<not> list_all (\<lambda>c. evaluateConditionWithUser rt c user) (conditions r)
            \<or> \<not> isInRollout_p5 uid flagKey (rolloutPercentage r))
    \<longrightarrow> evaluateTargeting_p5 rt flagKey (Some t) user defaultValue rnd =
          (\<lparr>eval_enabled = isInRollout_p5 uid flagKey (default_rolloutPercentage (defaultRule t)),
            eval_value = default_value (defaultRule t)\<rparr>, rnd))"
proof -
  have known_dash: "evaluateTargeting_dash rt flagKey (Some t) user defaultValue rnd =
          (\<lparr>eval_enabled = isInRollout_dash uid flagKey (default_rolloutPercentage (defaultRule t)),
            eval_value = default_value (defaultRule t)\<rparr>, rnd)"
    if "enabled t" and "user_id user = Some uid" and "uid \<noteq> []"
      and "\<forall>r \<in> set (rules t).
            \<not> rule_enabled r
            \<or> \<not> list_all (\<lambda>c. evaluateCondition_dash rt c user) (conditions r)
            \<or> \<not> isInRollout_dash uid flagKey (rolloutPercentage r)"
  proof -
    have "no_rule_matches (\<lambda>r. list_all (\<lambda>c. evaluateCondition_dash rt c user) (conditions r))
           (\<lambda>u p. isInRollout_dash u flagKey p) (user_id user) (rules t) rnd = Some rnd"
      unfolding that(2) using that(3,4) by (intro no_rule_matches_identified) auto
    from evaluateTargeting_dash_fallback [OF that(1) this, of defaultValue]
    show ?thesis
      by (simp add: id_or_anonymous_identified [OF that(2,3)])
  qed
  have known_p5: "evaluateTargeting_p5 rt flagKey (Some t) user defaultValue rnd =
          (\<lparr>eval_enabled = isInRollout_p5 uid flagKey (default_rolloutPercentage (defaultRule t)),
            eval_value = default_value (defaultRule t)\<rparr>, rnd)"
    if "enabled t" and "user_id user = Some uid" and "uid \<noteq> []"
      and "\<forall>r \<in> set (rules t).
            \<not> rule_enabled r
            \<or> \<not> list_all (\<lambda>c. evaluateConditionWithUser rt c user) (conditions r)
            \<or> \<not> isInRollout_p5 uid flagKey (rolloutPercentage r)"
  proof -
    have "no_rule_matches (\<lambda>r. list_all (\<lambda>c. evaluateConditionWithUser rt c user) (conditions r))
           (\<lambda>u p. isInRollout_p5 u flagKey p) (user_id user) (rules t) rnd = Some rnd"
      unfolding that(2) using that(3,4) by (intro no_rule_matches_identified) auto
    from evaluateTargeting_p5_fallback [OF that(1) this, of defaultValue]
    show ?thesis
      by (simp add: id_or_anonymous_identified [OF that(2,3)])
  qed
  show ?thesis
    using evaluateTargeting_dash_fallback [of t rt user flagKey rnd rnd' defaultValue]
      evaluateTargeting_p5_fallback [of t rt user flagKey rnd rnd' defaultValue]
      known_dash known_p5
    by blast
qed

lemma free_user_id: "user_id free_user = Some (ascii ''user-123'')"
  by (simp add: free_user_def)

lemma premium_targeting_fields:
  "enabled premium_targeting" "rules premium_targeting = [premium_rule (Fin 100) (JBool True)]"
  "defaultRule premium_targeting = \<lparr>default_rolloutPercentage = Fin 0, default_value = JBool False\<rparr>"
  by (simp_all add: premium_targeting_def)

lemma anonymous_user_conditions:
  "\<not> list_all (\<lambda>c. evaluateCondition_dash rt c (attribute_free_user uid)) (conditions (premium_rule p v))"
  "\<not> list_all (\<lambda>c. evaluateConditionWithUser rt c (attribute_free_user uid)) (conditions (premium_rule p v))"
  by (simp_all add: attribute_free_user_def premium_rule_def evaluateCondition_dash_def
      evaluateConditionWithUser_def evaluateCondition_p5_def attribute_of_def)

text \<open>
  Instances: a user on the free plan, and a user without id and attributes; one rule for
  the premium plan, default rule at 0 percent. The result is disabled and carries the value
  of the default rule, not the caller's default.
\<close>

theorem no_match_fallback_witness:
  "enabled premium_targeting
   \<and> user_id free_user = Some (ascii ''user-123'')
   \<and> evaluateTargeting_dash example_coercions (ascii ''test-flag'') (Some premium_targeting)
        free_user (JStr (ascii ''plain'')) (sconst draw_half) =
       (\<lparr>eval_enabled = False, eval_value = JBool False\<rparr>, sconst draw_half)
   \<and> evaluateTargeting_p5 example_coercions (ascii ''test-flag'') (Some premium_targeting)
        free_user (JStr (ascii ''plain'')) (sconst draw_half) =
       (\<lparr>eval_enabled = False, eval_value = JBool False\<rparr>, sconst draw_half)
   \<and> no_rule_matches
        (\<lambda>r. list_all (\<lambda>c. evaluateCondition_dash example_coercions c (attribute_free_user None))
              (conditions r))
        (\<lambda>u p. isInRollout_dash u (ascii ''test-flag'') p) (user_id (attribute_free_user None))
        (rules premium_targeting) (sconst draw_half) = Some (sconst draw_half)
   \<and> no_rule_matches
        (\<lambda>r. list_all (\<lambda>c. evaluateConditionWithUser example_coercions c (attribute_free_user None))
              (conditions r))
        (\<lambda>u p. isInRollout_p5 u (ascii ''test-flag'') p) (user_id (attribute_free_user None))
        (rules premium_targeting) (sconst draw_half) = Some (sconst draw_half)
   \<and> evaluateTargeting_dash example_coercions (ascii ''test-flag'') (Some premium_targeting)
        (attribute_free_user None) (JStr (ascii ''plain'')) (sconst draw_half) =
       (\<lparr>eval_enabled = False, eval_value = JBool False\<rparr>, sconst draw_half)
   \<and> evaluateTargeting_p5 example_coercions (ascii ''test-flag'') (Some premium_targeting)
        (attribute_free_user None) (JStr (ascii ''plain'')) (sconst draw_half) =
       (\<lparr>eval_enabled = False, eval_value = JBool False\<rparr>, sconst draw_half)"
proof -
  let ?anon = "attribute_free_user None"
  note known = no_match_fallback [where t = premium_targeting and rt = example_coercions
      and user = free_user and flagKey = "ascii ''test-flag''" and rnd = "sconst draw_half"
      and rnd' = "sconst draw_half" and defaultValue = "JStr (ascii ''plain'')"
      and uid = "ascii ''user-123''"]
  note unknown = no_match_fallback [where t = premium_targeting and rt = example_coercions
      and user = ?anon and flagKey = "ascii ''test-flag''" and rnd = "sconst draw_half"
      and rnd' = "sconst draw_half" and defaultValue = "JStr (ascii ''plain'')"
      and uid = "ascii ''user-123''"]
  have on: "enabled premium_targeting"
    by (rule premium_targeting_fields)
  have nonempty: "ascii ''user-123'' \<noteq> []"
    by (simp add: ascii_def)
  have all_dash: "\<forall>r \<in> set (rules premium_targeting).
      \<not> rule_enabled r
      \<or> \<not> list_all (\<lambda>c. evaluateCondition_dash example_coercions c free_user) (conditions r)
      \<or> \<not> isInRollout_dash (ascii ''user-123'') (ascii ''test-flag'') (rolloutPercentage r)"
    by (simp add: premium_targeting_fields free_user_conditions)
  have all_p5: "\<forall>r \<in> set (rules premium_targeting).
      \<not> rule_enabled r
      \<or> \<not> list_all (\<lambda>c. evaluateConditionWithUser example_coercions c free_user) (conditions r)
      \<or> \<not> isInRollout_p5 (ascii ''user-123'') (ascii ''test-flag'') (rolloutPercentage r)"
    by (simp add: premium_targeting_fields free_user_conditions)
  have "evaluateTargeting_dash example_coercions (ascii ''test-flag'') (Some premium_targeting)
        free_user (JStr (ascii ''plain'')) (sconst draw_half) =
       (\<lparr>eval_enabled = isInRollout_dash (ascii ''user-123'') (ascii ''test-flag'')
                          (default_rolloutPercentage (defaultRule premium_targeting)),
         eval_value = default_value (defaultRule premium_targeting)\<rparr>, sconst draw_half)"
    using known on free_user_id nonempty all_dash by blast
  then have k_dash: "evaluateTargeting_dash example_coercions (ascii ''test-flag'')
        (Some premium_targeting) free_user (JStr (ascii ''plain'')) (sconst draw_half) =
       (\<lparr>eval_enabled = False, eval_value = JBool False\<rparr>, sconst draw_half)"
    by (simp add: premium_targeting_fields)
  have "evaluateTargeting_p5 example_coercions (ascii ''test-flag'') (Some premium_targeting)
        free_user (JStr (ascii ''plain'')) (sconst draw_half) =
       (\<lparr>eval_enabled = isInRollout_p5 (ascii ''user-123'') (ascii ''test-flag'')
                          (default_rolloutPercentage (defaultRule premium_targeting)),
         eval_value = default_value (defaultRule premium_targeting)\<rparr>, sconst draw_half)"
    using known on free_user_id nonempty all_p5 by blast
  then have k_p5: "evaluateTargeting_p5 example_coercions (ascii ''test-flag'')
        (Some premium_targeting) free_user (JStr (ascii ''plain'')) (sconst draw_half) =
       (\<lparr>eval_enabled = False, eval_value = JBool False\<rparr>, sconst draw_half)"
    by (simp add: premium_targeting_fields)
  have none_dash: "no_rule_matches
        (\<lambda>r. list_all (\<lambda>c. evaluateCondition_dash example_coercions c ?anon) (conditions r))
        (\<lambda>u p. isInRollout_dash u (ascii ''test-flag'') p) (user_id ?anon)
        (rules premium_targeting) (sconst draw_half) = Some (sconst draw_half)"
    by (simp add: premium_targeting_fields anonymous_user_conditions example_rule_fields)
  have none_p5: "no_rule_matches
        (\<lambda>r. list_all (\<lambda>c. evaluateConditionWithUser example_coercions c ?anon) (conditions r))
        (\<lambda>u p. isInRollout_p5 u (ascii ''test-flag'') p) (user_id ?anon)
        (rules premium_targeting) (sconst draw_half) = Some (sconst draw_half)"
    by (simp add: premium_targeting_fields anonymous_user_conditions example_rule_fields)
  have who: "id_or_anonymous example_coercions ?anon (sconst draw_half) =
      (anonymous_id example_coercions draw_half, sconst draw_half)"
    by (simp add: id_or_anonymous_falsy attribute_free_user_def)
  have "evaluateTargeting_dash example_coercions (ascii ''test-flag'') (Some premium_targeting)
        ?anon (JStr (ascii ''plain'')) (sconst draw_half) =
       (\<lparr>eval_enabled = isInRollout_dash
            (fst (id_or_anonymous example_coercions ?anon (sconst draw_half))) (ascii ''test-flag'')
            (default_rolloutPercentage (defaultRule premium_targeting)),
         eval_value = default_value (defaultRule premium_targeting)\<rparr>,
        snd (id_or_anonymous example_coercions ?anon (sconst draw_half)))"
    using unknown on none_dash by blast
  then have u_dash: "evaluateTargeting_dash example_coercions (ascii ''test-flag'')
        (Some premium_targeting) ?anon (JStr (ascii ''plain'')) (sconst draw_half) =
       (\<lparr>eval_enabled = False, eval_value = JBool False\<rparr>, sconst draw_half)"
    by (simp add: premium_targeting_fields who)
  have "evaluateTargeting_p5 example_coercions (ascii ''test-flag'') (Some premium_targeting)
        ?anon (JStr (ascii ''plain'')) (sconst draw_half) =
       (\<lparr>eval_enabled = isInRollout_p5
            (fst (id_or_anonymous example_coercions ?anon (sconst draw_half))) (ascii ''test-flag'')
            (default_rolloutPercentage (defaultRule premium_targeting)),
         eval_value = default_value (defaultRule premium_targeting)\<rparr>,
        snd (id_or_anonymous example_coercions ?anon (sconst draw_half)))"
    using unknown on none_p5 by blast
  then have u_p5: "evaluateTargeting_p5 example_coercions (ascii ''test-flag'')
        (Some premium_targeting) ?anon (JStr (ascii ''plain'')) (sconst draw_half) =
       (\<lparr>eval_enabled = False, eval_value = JBool False\<rparr>, sconst draw_half)"
    by (simp add: premium_targeting_fields who)
  show ?thesis
    by (intro conjI on free_user_id k_dash k_p5 none_dash none_p5 u_dash u_p5)
qed

text \<open>
  Claim C5, as amended. For a user whose id is present and not the empty string,
  \<open>evaluateTargeting\<close> returns the same result whatever the random source holds, and takes
  no draw from it. (\<open>isInRollout\<close> reads nothing but its arguments: it is a function of
  them.) Both files.
\<close>

theorem identified_user_deterministic:
  "user_id user = Some uid \<Longrightarrow> uid \<noteq> [] \<Longrightarrow>
   evaluateTargeting_dash rt flagKey targeting user defaultValue rnd =
     (fst (evaluateTargeting_dash rt flagKey targeting user defaultValue rnd'), rnd)
   \<and> evaluateTargeting_p5 rt flagKey targeting user defaultValue rnd =
     (fst (evaluateTargeting_p5 rt flagKey targeting user defaultValue rnd'), rnd)"
  by (intro conjI evaluateTargeting_dash_no_draw evaluateTargeting_p5_no_draw)

text \<open>An instance: the user \<open>"user-123"\<close> and a rule at 50 percent, under two random sources.\<close>

theorem identified_user_deterministic_witness:
  "user_id premium_user = Some (ascii ''user-123'') \<and> ascii ''user-123'' \<noteq> []
   \<and> evaluateTargeting_dash example_coercions (ascii ''test-flag'') (Some half_targeting)
        premium_user (JBool False) (sconst draw_zero) =
       (fst (evaluateTargeting_dash example_coercions (ascii ''test-flag'') (Some half_targeting)
              premium_user (JBool False) (sconst draw_half)), sconst draw_zero)
   \<and> evaluateTargeting_p5 example_coercions (ascii ''test-flag'') (Some half_targeting)
        premium_user (JBool False) (sconst draw_zero) =
       (fst (evaluateTargeting_p5 example_coercions (ascii ''test-flag'') (Some half_targeting)
              premium_user (JBool False) (sconst draw_half)), sconst draw_zero)"
  using premium_user_id
    identified_user_deterministic [OF premium_user_id, of example_coercions "ascii ''test-flag''"
      "Some half_targeting" "JBool False" "sconst draw_zero" "sconst draw_half"]
  by blast

lemma half_targeting_anonymous_dash:
  "fst (evaluateTargeting_dash example_coercions (ascii ''test-flag'') (Some half_targeting)
         (attribute_free_user (Some [])) (JBool False) (sconst draw_zero))
     = \<lparr>eval_enabled = True, eval_value = JBool True\<rparr>"
  "fst (evaluateTargeting_dash example_coercions (ascii ''test-flag'') (Some half_targeting)
         (attribute_free_user (Some [])) (JBool False) (sconst draw_half))
     = \<lparr>eval_enabled = False, eval_value = JBool False\<rparr>"
  by (simp_all add: evaluateTargeting_dash_def half_targeting_def gate_rule_def
      attribute_free_user_def evaluateRule_dash_def Math_random_def random_bucket_zero
      random_bucket_half of_integer_value_def id_or_anonymous_def)

lemma half_targeting_anonymous_p5:
  "fst (evaluateTargeting_p5 example_coercions (ascii ''test-flag'') (Some half_targeting)
         (attribute_free_user (Some [])) (JBool False) (sconst draw_zero))
     = \<lparr>eval_enabled = True, eval_value = JBool True\<rparr>"
  "fst (evaluateTargeting_p5 example_coercions (ascii ''test-flag'') (Some half_targeting)
         (attribute_free_user (Some [])) (JBool False) (sconst draw_half))
     = \<lparr>eval_enabled = False, eval_value = JBool False\<rparr>"
  by (simp_all add: evaluateTargeting_p5_def half_targeting_def gate_rule_def
      attribute_free_user_def evaluateRule_p5_def Math_random_def random_bucket_zero
      random_bucket_half of_integer_value_def id_or_anonymous_def)

text \<open>
  Claim C5 as stated fails for an id that is present but empty: with a rule at 50 percent
  and no conditions, the draw \<open>0\<close> enables the flag and the draw \<open>1/2\<close> does not.
\<close>

theorem empty_id_not_deterministic:
  "user_id (attribute_free_user (Some [])) = Some []
   \<and> fst (evaluateTargeting_dash example_coercions (ascii ''test-flag'') (Some half_targeting)
         (attribute_free_user (Some [])) (JBool False) (sconst draw_zero))
     \<noteq> fst (evaluateTargeting_dash example_coercions (ascii ''test-flag'') (Some half_targeting)
         (attribute_free_user (Some [])) (JBool False) (sconst draw_half))
   \<and> fst (evaluateTargeting_p5 example_coercions (ascii ''test-flag'') (Some half_targeting)
         (attribute_free_user (Some [])) (JBool False) (sconst draw_zero))
     \<noteq> fst (evaluateTargeting_p5 example_coercions (ascii ''test-flag'') (Some half_targeting)
         (attribute_free_user (Some [])) (JBool False) (sconst draw_half))"
proof -
  have "user_id (attribute_free_user (Some [])) = Some []"
    by (simp add: attribute_free_user_def)
  then show ?thesis
    by (simp add: half_targeting_anonymous_dash half_targeting_anonymous_p5)
qed

text \<open>
  Claim C7. The condition \<open>country in "TR,US,UK"\<close> for a user whose country is \<open>"TR"\<close>:
  \<open>src/apps/dashboard/lib/targeting.ts\<close> answers false, because it accepts arrays only;
  \<open>src/unnamed/part_005\<close> answers true, as the claim and the test suite say.
\<close>

theorem in_operator_comma_string_divergence:
  "\<not> evaluateCondition_dash rt country_in_condition (country_only_user (ascii ''TR''))
   \<and> evaluateConditionWithUser rt country_in_condition (country_only_user (ascii ''TR''))"
  by (simp add: evaluateCondition_dash_def evaluateConditionWithUser_def country_in_condition_def
      country_only_user_def attribute_of_def is_array_def in_string_p5 split_TR trim_TR)

lemma in_operator_p5_TR:
  "evaluateCondition_p5 rt (JStr (ascii ''TR'')) OpIn (JStr (ascii ''TR,US,UK''))"
  by (simp add: in_string_p5 split_TR trim_TR)

lemma in_operator_p5_DE:
  "\<not> evaluateCondition_p5 rt (JStr (ascii ''DE'')) OpIn (JStr (ascii ''TR,US,UK''))"
  by (simp add: in_string_p5 split_TR trim_TR) (simp add: ascii_def)

lemma in_operator_dash:
  "evaluateCondition_dash rt c user =
     (attribute_of user (attribute c) \<noteq> JUndefined \<and> is_array (cond_value c)
      \<and> array_includes (elements (cond_value c)) (attribute_of user (attribute c)))"
  if "operator c = OpIn"
  using that by (auto simp: evaluateCondition_dash_def Let_def)

text \<open>
  Claim C8. The attribute \<open>constructor\<close> is absent from the attribute map
  \<open>{country: "TR"}\<close>, and the condition \<open>constructor ne "premium"\<close> is true for that user
  in both files, where the claim says false: the lookup finds the function
  \<open>Object.prototype.constructor\<close>, which is not \<open>undefined\<close> and differs from every
  string.
\<close>

theorem inherited_attribute_matches_ne:
  "attributes (country_only_user (ascii ''TR'')) = Some [ascii ''country'' \<mapsto> JStr (ascii ''TR'')]
   \<and> [ascii ''country'' \<mapsto> JStr (ascii ''TR'')] (attribute constructor_ne_condition) = None
   \<and> attribute_of (country_only_user (ascii ''TR'')) (attribute constructor_ne_condition)
       = JFunction 0
   \<and> evaluateCondition_dash rt constructor_ne_condition (country_only_user (ascii ''TR''))
   \<and> evaluateConditionWithUser rt constructor_ne_condition (country_only_user (ascii ''TR''))"
proof -
  let ?u = "country_only_user (ascii ''TR'')"
  have own: "attributes ?u = Some [ascii ''country'' \<mapsto> JStr (ascii ''TR'')]"
    by (simp add: country_only_user_def)
  have name: "attribute constructor_ne_condition = ascii ''constructor''"
    and op: "operator constructor_ne_condition = OpNe"
    and v: "cond_value constructor_ne_condition = JStr (ascii ''premium'')"
    by (simp_all add: constructor_ne_condition_def)
  have no_key: "[ascii ''country'' \<mapsto> JStr (ascii ''TR'')] (ascii ''constructor'') = None"
    by (simp add: ascii_def)
  have found: "attribute_of ?u (ascii ''constructor'') = JFunction 0"
    by (rule attribute_of_inherited [OF own no_key Object_prototype_constructor])
  have absent: "[ascii ''country'' \<mapsto> JStr (ascii ''TR'')] (attribute constructor_ne_condition) = None"
    unfolding name by (rule no_key)
  have looked_up: "attribute_of ?u (attribute constructor_ne_condition) = JFunction 0"
    unfolding name by (rule found)
  have dash: "evaluateCondition_dash rt constructor_ne_condition ?u"
    by (simp add: evaluateCondition_dash_def looked_up op v)
  have p5: "evaluateConditionWithUser rt constructor_ne_condition ?u"
    by (simp add: evaluateConditionWithUser_def evaluateCondition_p5_def looked_up op v)
  show ?thesis
    by (intro conjI own absent looked_up dash p5)
qed

text \<open>
  What the guard \<open>userValue === undefined\<close> does give: when there is no attribute map, or
  the map holds \<open>undefined\<close> under the name, or neither the map nor \<open>Object.prototype\<close>
  has the name, the condition is false for every operator and every condition value,
  \<open>ne\<close> included. Both files; for \<open>src/unnamed/part_005\<close> both the wrapper and
  \<open>evaluateCondition\<close> itself on \<open>undefined\<close>.
\<close>

lemma undefined_attribute_never_matches:
  "(case attributes user of None \<Rightarrow> True
    | Some own \<Rightarrow>
        own (attribute c) = Some JUndefined
        \<or> (own (attribute c) = None \<and> map_of Object_prototype (attribute c) = None)) \<Longrightarrow>
   \<not> evaluateCondition_dash rt c user
   \<and> \<not> evaluateConditionWithUser rt c user
   \<and> \<not> evaluateCondition_p5 rt (attribute_of user (attribute c)) op v
   \<and> \<not> evaluateCondition_p5 rt JUndefined op v"
  by (simp add: attribute_of_undefined evaluateCondition_dash_undefined
      evaluateConditionWithUser_undefined evaluateCondition_p5_undefined)

lemma undefined_attribute_examples:
  "\<not> evaluateCondition_dash rt plan_ne_condition (attribute_free_user (Some (ascii ''u1'')))"
  "\<not> evaluateConditionWithUser rt plan_ne_condition (attribute_free_user (Some (ascii ''u1'')))"
  "\<not> evaluateCondition_dash rt plan_ne_condition (country_only_user (ascii ''TR''))"
  "\<not> evaluateConditionWithUser rt plan_ne_condition (country_only_user (ascii ''TR''))"
proof -
  have name: "attribute plan_ne_condition = ascii ''plan''"
    by (simp add: plan_ne_condition_def)
  have no_key: "[ascii ''country'' \<mapsto> JStr (ascii ''TR'')] (ascii ''plan'') = None"
    by (simp add: ascii_def)
  have no_map: "attribute_of (attribute_free_user (Some (ascii ''u1''))) (attribute plan_ne_condition)
      = JUndefined"
    by (rule attribute_of_undefined) (simp add: attribute_free_user_def)
  have no_plan: "attribute_of (country_only_user (ascii ''TR'')) (attribute plan_ne_condition)
      = JUndefined"
    unfolding name
    by (rule attribute_of_undefined)
      (simp only: country_only_user_def UserContext.simps option.simps no_key
        Object_prototype_plan simp_thms)
  show "\<not> evaluateCondition_dash rt plan_ne_condition (attribute_free_user (Some (ascii ''u1'')))"
    by (rule evaluateCondition_dash_undefined [OF no_map])
  show "\<not> evaluateConditionWithUser rt plan_ne_condition (attribute_free_user (Some (ascii ''u1'')))"
    by (rule evaluateConditionWithUser_undefined [OF no_map])
  show "\<not> evaluateCondition_dash rt plan_ne_condition (country_only_user (ascii ''TR''))"
    by (rule evaluateCondition_dash_undefined [OF no_plan])
  show "\<not> evaluateConditionWithUser rt plan_ne_condition (country_only_user (ascii ''TR''))"
    by (rule evaluateConditionWithUser_undefined [OF no_plan])
qed

text \<open>
  Claim C10. A user whose id is the empty string is treated as a user without id, by
  \<open>evaluateRule\<close> and by \<open>evaluateTargeting\<close> (first four conjuncts). For such a user a rule
  that is enabled and whose conditions match is decided by the random bucket of the next
  draw compared with the rule's percentage, and the default rule by the rollout test of
  the anonymous id made from the next draw; the rollout test of the flag key and the empty
  id is not consulted. Both files.
\<close>

theorem empty_id_takes_anonymous_path:
  "evaluateRule_dash rt rule (user\<lparr>user_id := Some []\<rparr>) flagKey rnd =
     evaluateRule_dash rt rule (user\<lparr>user_id := None\<rparr>) flagKey rnd
   \<and> evaluateRule_p5 rt rule (user\<lparr>user_id := Some []\<rparr>) flagKey rnd =
     evaluateRule_p5 rt rule (user\<lparr>user_id := None\<rparr>) flagKey rnd
   \<and> evaluateTargeting_dash rt flagKey targeting (user\<lparr>user_id := Some []\<rparr>) dv rnd =
     evaluateTargeting_dash rt flagKey targeting (user\<lparr>user_id := None\<rparr>) dv rnd
   \<and> evaluateTargeting_p5 rt flagKey targeting (user\<lparr>user_id := Some []\<rparr>) dv rnd =
     evaluateTargeting_p5 rt flagKey targeting (user\<lparr>user_id := None\<rparr>) dv rnd
   \<and> (user_id user = Some [] \<and> rule_enabled rule
        \<and> list_all (\<lambda>c. evaluateCondition_dash rt c user) (conditions rule)
      \<longrightarrow> evaluateRule_dash rt rule user flagKey rnd =
          (\<lparr>matches = num_lt (of_integer_value (random_bucket (shd rnd))) (rolloutPercentage rule),
            matched_value = rule_value rule\<rparr>, stl rnd))
   \<and> (user_id user = Some [] \<and> rule_enabled rule
        \<and> list_all (\<lambda>c. evaluateConditionWithUser rt c user) (conditions rule)
      \<longrightarrow> evaluateRule_p5 rt rule user flagKey rnd =
          (\<lparr>matches = num_lt (of_integer_value (random_bucket (shd rnd))) (rolloutPercentage rule),
            matched_value = rule_value rule\<rparr>, stl rnd))
   \<and> (user_id user = Some [] \<and> enabled t
        \<and> no_rule_matches (\<lambda>r. list_all (\<lambda>c. evaluateCondition_dash rt c user) (conditions r))
             (\<lambda>u p. isInRollout_dash u flagKey p) (user_id user) (rules t) rnd = Some rnd'
      \<longrightarrow> evaluateTargeting_dash rt flagKey (Some t) user dv rnd =
          (\<lparr>eval_enabled = isInRollout_dash (anonymous_id rt (shd rnd')) flagKey
                             (default_rolloutPercentage (defaultRule t)),
            eval_value = default_value (defaultRule t)\<rparr>, stl rnd'))
   \<and> (user_id user = Some [] \<and> enabled t
        \<and> no_rule_matches (\<lambda>r. list_all (\<lambda>c. evaluateConditionWithUser rt c user) (conditions r))
             (\<lambda>u p. isInRollout_p5 u flagKey p) (user_id user) (rules t) rnd = Some rnd'
      \<longrightarrow> evaluateTargeting_p5 rt flagKey (Some t) user dv rnd =
          (\<lparr>eval_enabled = isInRollout_p5 (anonymous_id rt (shd rnd')) flagKey
                             (default_rolloutPercentage (defaultRule t)),
            eval_value = default_value (defaultRule t)\<rparr>, stl rnd'))"
proof -
  have fallback_dash: "evaluateTargeting_dash rt flagKey (Some t) user dv rnd =
          (\<lparr>eval_enabled = isInRollout_dash (anonymous_id rt (shd rnd')) flagKey
                             (default_rolloutPercentage (defaultRule t)),
            eval_value = default_value (defaultRule t)\<rparr>, stl rnd')"
    if "user_id user = Some []" and "enabled t"
      and "no_rule_matches (\<lambda>r. list_all (\<lambda>c. evaluateCondition_dash rt c user) (conditions r))
             (\<lambda>u p. isInRollout_dash u flagKey p) (user_id user) (rules t) rnd = Some rnd'"
    using evaluateTargeting_dash_fallback [OF that(2,3), of dv] that(1)
    by (simp add: id_or_anonymous_falsy)
  have fallback_p5: "evaluateTargeting_p5 rt flagKey (Some t) user dv rnd =
          (\<lparr>eval_enabled = isInRollout_p5 (anonymous_id rt (shd rnd')) flagKey
                             (default_rolloutPercentage (defaultRule t)),
            eval_value = default_value (defaultRule t)\<rparr>, stl rnd')"
    if "user_id user = Some []" and "enabled t"
      and "no_rule_matches (\<lambda>r. list_all (\<lambda>c. evaluateConditionWithUser rt c user) (conditions r))
             (\<lambda>u p. isInRollout_p5 u flagKey p) (user_id user) (rules t) rnd = Some rnd'"
    using evaluateTargeting_p5_fallback [OF that(2,3), of dv] that(1)
    by (simp add: id_or_anonymous_falsy)
  show ?thesis
    using evaluateRule_dash_empty_id [of rt rule user flagKey rnd]
      evaluateRule_p5_empty_id [of rt rule user flagKey rnd]
      evaluateTargeting_dash_empty_id [of rt flagKey targeting user dv rnd]
      evaluateTargeting_p5_empty_id [of rt flagKey targeting user dv rnd]
      evaluateRule_dash_anonymous [of user rule rt flagKey rnd]
      evaluateRule_p5_anonymous [of user rule rt flagKey rnd]
      fallback_dash fallback_p5
    by blast
qed

lemma anonymous_bucket_zero:
  "hashString_p5 (ascii ''f'' @ ascii '':'' @ anonymous_id example_coercions draw_zero) = 95"
  by (simp add: anonymous_id_def example_coercions_def draw_value.rep_eq draw_zero.rep_eq
      hashString_p5_def ascii_def hash_loop_step del: hash_loop.simps(2))

lemma anonymous_bucket_half:
  "hashString_p5 (ascii ''f'' @ ascii '':'' @ anonymous_id example_coercions draw_half) = 50"
  by (simp add: anonymous_id_def example_coercions_def draw_value.rep_eq draw_half.rep_eq
      hashString_p5_def ascii_def hash_loop_step del: hash_loop.simps(2))

lemma anonymous_rollout_60:
  "\<not> isInRollout_p5 (anonymous_id example_coercions draw_zero) (ascii ''f'') (Fin 60)"
  "isInRollout_p5 (anonymous_id example_coercions draw_half) (ascii ''f'') (Fin 60)"
  "\<not> isInRollout_dash (anonymous_id example_coercions draw_zero) (ascii ''f'') (Fin 60)"
  "isInRollout_dash (anonymous_id example_coercions draw_half) (ascii ''f'') (Fin 60)"
  by (simp_all add: isInRollout_same isInRollout_p5_def anonymous_bucket_zero
      anonymous_bucket_half of_integer_value_def)

text \<open>
  Instances with the empty id: a rule at 50 percent matches with the draw \<open>0\<close> and not with
  the draw \<open>1/2\<close>; a default rule at 60 percent on the flag \<open>"f"\<close> is off with the draw
  \<open>0\<close> (bucket 95) and on with the draw \<open>1/2\<close> (bucket 50).
\<close>

theorem empty_id_takes_anonymous_path_witness:
  "user_id (attribute_free_user (Some [])) = Some []
   \<and> evaluateRule_dash example_coercions (gate_rule (Fin 50) (JBool True))
        (attribute_free_user (Some [])) (ascii ''f'') (sconst draw_zero) =
       (\<lparr>matches = True, matched_value = JBool True\<rparr>, sconst draw_zero)
   \<and> evaluateRule_dash example_coercions (gate_rule (Fin 50) (JBool True))
        (attribute_free_user (Some [])) (ascii ''f'') (sconst draw_half) =
       (\<lparr>matches = False, matched_value = JBool True\<rparr>, sconst draw_half)
   \<and> evaluateRule_p5 example_coercions (gate_rule (Fin 50) (JBool True))
        (attribute_free_user (Some [])) (ascii ''f'') (sconst draw_zero) =
       (\<lparr>matches = True, matched_value = JBool True\<rparr>, sconst draw_zero)
   \<and> evaluateRule_p5 example_coercions (gate_rule (Fin 50) (JBool True))
        (attribute_free_user (Some [])) (ascii ''f'') (sconst draw_half) =
       (\<lparr>matches = False, matched_value = JBool True\<rparr>, sconst draw_half)
   \<and> evaluateTargeting_dash example_coercions (ascii ''f'') (Some default_only_targeting)
        (attribute_free_user (Some [])) (JBool False) (sconst draw_zero) =
       (\<lparr>eval_enabled = False, eval_value = JBool True\<rparr>, sconst draw_zero)
   \<and> evaluateTargeting_dash example_coercions (ascii ''f'') (Some default_only_targeting)
        (attribute_free_user (Some [])) (JBool False) (sconst draw_half) =
       (\<lparr>eval_enabled = True, eval_value = JBool True\<rparr>, sconst draw_half)
   \<and> evaluateTargeting_p5 example_coercions (ascii ''f'') (Some default_only_targeting)
        (attribute_free_user (Some [])) (JBool False) (sconst draw_zero) =
       (\<lparr>eval_enabled = False, eval_value = JBool True\<rparr>, sconst draw_zero)
   \<and> evaluateTargeting_p5 example_coercions (ascii ''f'') (Some default_only_targeting)
        (attribute_free_user (Some [])) (JBool False) (sconst draw_half) =
       (\<lparr>eval_enabled = True, eval_value = JBool True\<rparr>, sconst draw_half)"
proof -
  let ?u = "attribute_free_user (Some [])"
  let ?g = "gate_rule (Fin 50) (JBool True)"
  let ?t = default_only_targeting
  have empty: "user_id ?u = Some []"
    by (simp add: attribute_free_user_def)
  have on: "rule_enabled ?g"
    and conds_dash: "list_all (\<lambda>c. evaluateCondition_dash example_coercions c ?u) (conditions ?g)"
    and conds_p5: "list_all (\<lambda>c. evaluateConditionWithUser example_coercions c ?u) (conditions ?g)"
    by (simp_all add: example_rule_fields)
  have t_on: "enabled ?t"
    and none_dash: "no_rule_matches
        (\<lambda>r. list_all (\<lambda>c. evaluateCondition_dash example_coercions c ?u) (conditions r))
        (\<lambda>u p. isInRollout_dash u (ascii ''f'') p) (user_id ?u) (rules ?t) rnd = Some rnd"
    and none_p5: "no_rule_matches
        (\<lambda>r. list_all (\<lambda>c. evaluateConditionWithUser example_coercions c ?u) (conditions r))
        (\<lambda>u p. isInRollout_p5 u (ascii ''f'') p) (user_id ?u) (rules ?t) rnd = Some rnd"
    for rnd
    by (simp_all add: default_only_targeting_def)
  note at_zero = empty_id_takes_anonymous_path [where user = ?u and rule = ?g and t = ?t
      and rt = example_coercions and flagKey = "ascii ''f''" and dv = "JBool False"
      and rnd = "sconst draw_zero" and rnd' = "sconst draw_zero"]
  note at_half = empty_id_takes_anonymous_path [where user = ?u and rule = ?g and t = ?t
      and rt = example_coercions and flagKey = "ascii ''f''" and dv = "JBool False"
      and rnd = "sconst draw_half" and rnd' = "sconst draw_half"]
  have r1: "evaluateRule_dash example_coercions ?g ?u (ascii ''f'') (sconst draw_zero) =
       (\<lparr>matches = True, matched_value = JBool True\<rparr>, sconst draw_zero)"
    using at_zero empty on conds_dash
    by (simp add: example_rule_fields random_bucket_zero of_integer_value_def)
  have r2: "evaluateRule_dash example_coercions ?g ?u (ascii ''f'') (sconst draw_half) =
       (\<lparr>matches = False, matched_value = JBool True\<rparr>, sconst draw_half)"
    using at_half empty on conds_dash
    by (simp add: example_rule_fields random_bucket_half of_integer_value_def)
  have r3: "evaluateRule_p5 example_coercions ?g ?u (ascii ''f'') (sconst draw_zero) =
       (\<lparr>matches = True, matched_value = JBool True\<rparr>, sconst draw_zero)"
    using at_zero empty on conds_p5
    by (simp add: example_rule_fields random_bucket_zero of_integer_value_def)
  have r4: "evaluateRule_p5 example_coercions ?g ?u (ascii ''f'') (sconst draw_half) =
       (\<lparr>matches = False, matched_value = JBool True\<rparr>, sconst draw_half)"
    using at_half empty on conds_p5
    by (simp add: example_rule_fields random_bucket_half of_integer_value_def)
  have d: "defaultRule ?t = \<lparr>default_rolloutPercentage = Fin 60, default_value = JBool True\<rparr>"
    by (simp add: default_only_targeting_def)
  have t1: "evaluateTargeting_dash example_coercions (ascii ''f'') (Some ?t) ?u (JBool False)
        (sconst draw_zero) = (\<lparr>eval_enabled = False, eval_value = JBool True\<rparr>, sconst draw_zero)"
    using at_zero empty t_on none_dash [of "sconst draw_zero"]
    by (simp add: d anonymous_rollout_60)
  have t2: "evaluateTargeting_dash example_coercions (ascii ''f'') (Some ?t) ?u (JBool False)
        (sconst draw_half) = (\<lparr>eval_enabled = True, eval_value = JBool True\<rparr>, sconst draw_half)"
    using at_half empty t_on none_dash [of "sconst draw_half"]
    by (simp add: d anonymous_rollout_60)
  have t3: "evaluateTargeting_p5 example_coercions (ascii ''f'') (Some ?t) ?u (JBool False)
        (sconst draw_zero) = (\<lparr>eval_enabled = False, eval_value = JBool True\<rparr>, sconst draw_zero)"
    using at_zero empty t_on none_p5 [of "sconst draw_zero"]
    by (simp add: d anonymous_rollout_60)
  have t4: "evaluateTargeting_p5 example_coercions (ascii ''f'') (Some ?t) ?u (JBool False)
        (sconst draw_half) = (\<lparr>eval_enabled = True, eval_value = JBool True\<rparr>, sconst draw_half)"
    using at_half empty t_on none_p5 [of "sconst draw_half"]
    by (simp add: d anonymous_rollout_60)
  show ?thesis
    by (intro conjI empty r1 r2 r3 r4 t1 t2 t3 t4)
qed

end
